theory Spec2Isabelle
  imports Complex_Main "HOL-Library.Sublist" "HOL-Library.AList"
begin

section \<open>Constants of scripts/bridge.js and of the bridge service\<close>

type_synonym address = string

text \<open>A JavaScript exception; only its message is ever inspected.\<close>

datatype exn = Error string | TypeError string

fun message :: "exn \<Rightarrow> string" where
  "message (Error m) = m"
| "message (TypeError m) = m"

text \<open>
  \<open>MIN_BRIDGE_AMOUNTS\<close>: \<open>parseEther("0.001")\<close> is \<open>10^15\<close> wei and \<open>parseUnits("1", 6)\<close> is
  \<open>10^6\<close> base units. Amounts are ethers BigNumbers of unsigned on-chain quantities.
\<close>

definition MIN_BRIDGE_AMOUNTS :: "(string \<times> nat) list" where
  "MIN_BRIDGE_AMOUNTS =
     [(''WETH'', 10 ^ 15), (''USDC'', 10 ^ 6), (''ETH'', 10 ^ 15), (''DEFAULT'', 10 ^ 15)]"

text \<open>\<open>MIN_BRIDGE_AMOUNTS[symbol] || MIN_BRIDGE_AMOUNTS.DEFAULT\<close>; a BigNumber object is always truthy.\<close>

definition minAmount :: "string \<Rightarrow> nat" where
  "minAmount smb =
     (case map_of MIN_BRIDGE_AMOUNTS smb of Some m \<Rightarrow> m | None \<Rightarrow> 10 ^ 15)"

definition GAS_BRIDGE_AMOUNT :: nat where
  "GAS_BRIDGE_AMOUNT = 10 ^ 15"

definition TARGET_TOKENS :: "string \<Rightarrow> string option" where
  "TARGET_TOKENS = map_of [(''WETH'', ''USDC''), (''USDC'', ''WETH'')]"

definition BASE :: nat where
  "BASE = 8453"

text \<open>\<open>bridgeService.chainIds\<close>, string keys in insertion order.\<close>

definition chainIds :: "(string \<times> nat) list" where
  "chainIds = [(''base'', 8453), (''arbitrum'', 42161), (''optimism'', 10), (''linea'', 59144)]"

definition tokenAddresses :: "(nat \<times> (string \<times> address) list) list" where
  "tokenAddresses =
     [(8453,  [(''USDC'', ''0x833589fCD6eDb6E08f4c7C32D4f71b54bdA02913''),
               (''WETH'', ''0x4200000000000000000000000000000000000006'')]),
      (42161, [(''USDC'', ''0xaf88d065e77c8cC2239327C5EDb3A432268e5831''),
               (''WETH'', ''0x82aF49447D8a07e3bd95BD0d56f35241523fBab1'')]),
      (10,    [(''USDC'', ''0x0b2C639c533813f4Aa9D7837CAf62653d097Ff85''),
               (''WETH'', ''0x4200000000000000000000000000000000000006'')]),
      (59144, [(''USDC'', ''0x176211869cA2b568f2A7D4EE941E073a821EE1ff''),
               (''WETH'', ''0xe5D7C2a44FfDDf6b295A15c148167daaAf5Cf34f'')])]"

text \<open>
  \<open>bridgeService.rpcUrls\<close> with its default urls (an environment variable may replace a url,
  never a key). \<open>new ethers.providers.JsonRpcProvider(rpcUrls[c])\<close> for an id \<open>c\<close> that is not a
  key is given \<open>undefined\<close>, for which ethers takes its default url \<open>http://localhost:8545\<close>.
  A provider is named by the chain id of its url, and \<open>DEFAULT_PROVIDER\<close> names the provider
  of the default url.
\<close>

definition rpcUrls :: "(nat \<times> string) list" where
  "rpcUrls =
     [(8453, ''https://base.llamarpc.com''), (42161, ''https://arb1.arbitrum.io/rpc''),
      (10, ''https://mainnet.optimism.io''), (59144, ''https://rpc.linea.build'')]"

definition DEFAULT_PROVIDER :: nat where
  "DEFAULT_PROVIDER = 0"

definition providerOf :: "nat \<Rightarrow> nat" where
  "providerOf c = (case map_of rpcUrls c of Some url \<Rightarrow> c | None \<Rightarrow> DEFAULT_PROVIDER)"

definition ZERO_ADDRESS :: address where
  "ZERO_ADDRESS = ''0x0000000000000000000000000000000000000000''"

definition NATIVE_PLACEHOLDER :: address where
  "NATIVE_PLACEHOLDER = ''0xEeeeeEeeeEeEeeEeEeEeeEEEeeeeEeeeeeeeEEeE''"

text \<open>The message of the TypeError that reading \<open>[0]\<close> of \<open>undefined\<close> raises.\<close>

definition undefined_read :: exn where
  "undefined_read = TypeError ''Cannot read properties of undefined (reading 0)''"

text \<open>
  \<open>Object.entries(this.chainIds).find(([name, id]) => id === x)[0]\<close>: the name of the first
  entry with that id; when there is none, \<open>find\<close> gives \<open>undefined\<close> and \<open>[0]\<close> raises.
\<close>

definition chainNameOf :: "nat \<Rightarrow> exn + string" where
  "chainNameOf x =
     (case find (\<lambda>(name, cid). cid = x) chainIds of
        None \<Rightarrow> Inl undefined_read
      | Some (name, cid) \<Rightarrow> Inr name)"

section \<open>Balance snapshot\<close>

text \<open>
  An entry of \<open>balances[chainId][symbol]\<close> is either \<open>{address, balance, formatted, decimals}\<close>
  or \<open>{error: message}\<close>. The display string \<open>formatted\<close> is only printed and is left out.
\<close>

datatype token_entry =
    TokenBalance (te_address: address) (te_balance: nat) (te_decimals: nat)
  | TokenError string

record chain_data =
  cd_chainName :: string
  cd_tokens :: "string \<Rightarrow> token_entry option"

text \<open>
  The snapshot object, keyed by chain id, as an association list in insertion order.
  \<open>Object.entries\<close> enumerates integer-like keys in ascending numeric order.
\<close>

type_synonym balances = "(nat \<times> chain_data) list"

definition Object_entries :: "balances \<Rightarrow> (nat \<times> chain_data) list" where
  "Object_entries b = sort_key fst b"

section \<open>Token selection in scripts/bridge.js\<close>

record token_source =
  symbol :: string
  sourceChainId :: nat
  chainName :: string
  tokenAddress :: address
  balance :: nat
  decimals :: nat

record best_token = token_source +
  targetSymbol :: "string option"

text \<open>
  The loop variables \<open>bestBalance, bestChainId, bestDecimals, bestTokenAddress\<close> are assigned
  together: \<open>None\<close> is the initial \<open>null\<close>. The guard
  \<open>chainData[symbol] && chainData[symbol].balance && !chainData[symbol].error\<close> holds exactly
  of a balance entry (its BigNumber is truthy, an error entry has no balance).
\<close>

type_synonym best = "(nat \<times> nat \<times> nat \<times> address) option"

fun best_step :: "string \<Rightarrow> best \<Rightarrow> nat \<times> chain_data \<Rightarrow> best" where
  "best_step smb bst (chainId, chainData) =
     (case cd_tokens chainData smb of
        Some (TokenBalance addr bal dec) \<Rightarrow>
          if bal < minAmount smb then bst
          else (case bst of
                  None \<Rightarrow> Some (bal, chainId, dec, addr)
                | Some (bestBalance, bestChainId, bestDecimals, bestTokenAddress) \<Rightarrow>
                    if bal > bestBalance then Some (bal, chainId, dec, addr) else bst)
      | _ \<Rightarrow> bst)"

definition findTokenBalanceOnChains :: "balances \<Rightarrow> string \<Rightarrow> exn + token_source option" where
  "findTokenBalanceOnChains b smb =
     (case foldl (best_step smb) None (Object_entries b) of
        None \<Rightarrow> Inr None
      | Some (bestBalance, bestChainId, bestDecimals, bestTokenAddress) \<Rightarrow>
          (case chainNameOf bestChainId of
             Inl e \<Rightarrow> Inl e
           | Inr name \<Rightarrow>
               Inr (Some \<lparr>symbol = smb, sourceChainId = bestChainId, chainName = name,
                          tokenAddress = bestTokenAddress, balance = bestBalance,
                          decimals = bestDecimals\<rparr>)))"

definition no_balance :: exn where
  "no_balance = Error ''No available token balance found on any chain''"

text \<open>
  The \<open>catch\<close> of \<open>findBestTokenToBridge\<close> logs and rethrows, so every error passes
  through. The result is optional because the caller tests it with \<open>if (!bestToken)\<close>.
\<close>

definition findBestTokenToBridge :: "balances \<Rightarrow> exn + best_token option" where
  "findBestTokenToBridge b =
     (case findTokenBalanceOnChains b ''WETH'' of
        Inl e \<Rightarrow> Inl e
      | Inr (Some sourceWETH) \<Rightarrow>
          Inr (Some (token_source.extend sourceWETH
                       (best_token.fields (TARGET_TOKENS ''WETH''))))
      | Inr None \<Rightarrow>
          (case findTokenBalanceOnChains b ''USDC'' of
             Inl e \<Rightarrow> Inl e
           | Inr (Some sourceUSDC) \<Rightarrow>
               Inr (Some (token_source.extend sourceUSDC
                            (best_token.fields (TARGET_TOKENS ''USDC''))))
           | Inr None \<Rightarrow> Inl no_balance))"

section \<open>Token selection of the bridge service (used by \<open>bridgeTokens\<close>)\<close>

record svc_best =
  svc_symbol :: string
  svc_sourceChainId :: nat
  svc_chainName :: string
  svc_tokenAddress :: address
  svc_balance :: nat

text \<open>
  \<open>bestToken, sourceChainId, tokenAddress\<close> are assigned together; \<open>tokenBalance\<close> starts at
  zero and is the balance of the current best.
\<close>

type_synonym svc_acc = "(string \<times> nat \<times> address) option \<times> nat"

fun svc_step :: "string \<Rightarrow> svc_acc \<Rightarrow> nat \<times> chain_data \<Rightarrow> svc_acc" where
  "svc_step smb (bst, tokenBalance) (chainId, chainData) =
     (case cd_tokens chainData smb of
        Some (TokenBalance addr bal dec) \<Rightarrow>
          if bal > tokenBalance then (Some (smb, chainId, addr), bal) else (bst, tokenBalance)
      | _ \<Rightarrow> (bst, tokenBalance))"

definition svc_findBestTokenToBridge :: "balances \<Rightarrow> exn + svc_best" where
  "svc_findBestTokenToBridge b =
     (let acc1 = foldl (svc_step ''USDC'') (None, 0) (Object_entries b);
          acc2 = (if fst acc1 = None then foldl (svc_step ''WETH'') acc1 (Object_entries b)
                  else acc1)
      in case acc2 of
           (None, tokenBalance) \<Rightarrow> Inl no_balance
         | (Some (bestToken, srcChainId, tokAddress), tokenBalance) \<Rightarrow>
             (case chainNameOf srcChainId of
                Inl e \<Rightarrow> Inl e
              | Inr name \<Rightarrow>
                  Inr \<lparr>svc_symbol = bestToken, svc_sourceChainId = srcChainId,
                       svc_chainName = name, svc_tokenAddress = tokAddress,
                       svc_balance = tokenBalance\<rparr>))"

section \<open>Destination chain\<close>

text \<open>
  \<open>rnd\<close> is the value of \<open>Math.random()\<close>, a number in \<open>[0, 1)\<close>. Indexing past the end of
  the array gives \<open>undefined\<close>, whose name lookup raises.
\<close>

definition findDestinationChain :: "real \<Rightarrow> nat \<Rightarrow> exn + nat" where
  "findDestinationChain rnd srcChainId =
     (let availableChainIds = filter (\<lambda>cid. cid \<noteq> srcChainId) (map snd chainIds);
          i = nat \<lfloor>rnd * real (length availableChainIds)\<rfloor>
      in case chainNameOf srcChainId of
           Inl e \<Rightarrow> Inl e
         | Inr sourceName \<Rightarrow>
             if i < length availableChainIds then
               (case chainNameOf (availableChainIds ! i) of
                  Inl e \<Rightarrow> Inl e
                | Inr destName \<Rightarrow> Inr (availableChainIds ! i))
             else Inl undefined_read)"

section \<open>External calls, events and programs\<close>

text \<open>
  Calldata is opaque for quoted transactions; \<open>approve(spender, amount)\<close> and WETH
  \<open>deposit()\<close> are the two calls the code encodes itself.
\<close>

datatype calldata = Raw string | Approve address nat | Deposit

record tx_request =
  tx_to :: address
  tx_data :: calldata
  tx_value :: nat
  tx_gasLimit :: "nat option"
  tx_gasPrice :: "nat option"

text \<open>The 1inch response, every field optional as in the JSON.\<close>

record quote_tx =
  qt_to :: "address option"
  qt_data :: "string option"
  qt_value :: "nat option"

record token_info =
  ti_address :: "address option"
  ti_symbol :: "string option"
  ti_decimals :: "nat option"

record quote_data =
  q_tx :: "quote_tx option"
  q_toAmount :: "nat option"
  q_dstAmount :: "nat option"
  q_amount :: "nat option"
  q_toToken :: "token_info option"
  q_dstToken :: "token_info option"
  q_toTokenAddress :: "address option"
  q_dst :: "address option"

record swap_params =
  sp_account :: address
  sp_receiver :: address
  sp_from :: address
  sp_to :: "address option"
  sp_amount :: nat
  sp_chainId :: nat

text \<open>The Relay quote: named steps, each with items carrying a transaction payload.\<close>

record payload =
  pl_to :: address
  pl_data :: string
  pl_value :: "nat option"
  pl_gasPrice :: "nat option"
  pl_chainId :: nat

record quote_item =
  item_data :: "payload option"

record quote_step =
  step_id :: string
  step_items :: "quote_item list option"
  step_requestId :: "string option"

record bridge_quote =
  bq_steps :: "quote_step list option"

text \<open>The argument object of \<open>requestBridgeQuote\<close> and the request sent to the Relay API.\<close>

record bridge_params =
  bp_user :: address
  bp_recipient :: "address option"
  bp_originChainId :: nat
  bp_destinationChainId :: nat
  bp_tokenAddress :: "address option"
  bp_symbol :: "string option"
  bp_amount :: nat
  bp_slippageTolerance :: string
  bp_targetSymbol :: "string option"
  bp_destinationCurrency :: "address option"

record relay_params =
  rp_user :: address
  rp_recipient :: address
  rp_originChainId :: nat
  rp_destinationChainId :: nat
  rp_originCurrency :: "address option"
  rp_destinationCurrency :: "address option"
  rp_amount :: nat
  rp_slippageTolerance :: string

text \<open>A wallet with the provider it is connected to; a provider is named as \<open>providerOf\<close> says.\<close>

record wallet =
  wl_address :: address
  wl_provider :: nat

text \<open>\<open>wallet.connect(provider)\<close>.\<close>

definition connect :: "wallet \<Rightarrow> nat \<Rightarrow> wallet" where
  "connect wlt provider = wlt\<lparr>wl_provider := provider\<rparr>"

text \<open>
  What the program does to the outside, in order: a gas price read made by \<open>checkGasPrice\<close>
  with its outcome, a transaction handed to \<open>sendTransaction\<close> (or to a contract method) of a
  provider, a swap request sent to the 1inch API by \<open>getQuote\<close>, and a call of
  \<open>requestBridgeQuote\<close>.
\<close>

datatype event =
    GasPriceChecked nat "exn + nat"
  | SendTransaction nat tx_request
  | SwapQuoteRequested swap_params
  | BridgeQuoteRequested bridge_params

text \<open>
  The collaborators. The token reads of one snapshot are made once per chain and token, so
  their outcomes are functions of chain and token. Every other call may answer differently
  each time: it takes and returns the state \<open>'w\<close> of the outside world. \<open>env_random\<close> is the
  value of the one \<open>Math.random()\<close> call of a cycle.
\<close>

record 'w env =
  env_decimals :: "nat \<Rightarrow> address \<Rightarrow> exn + nat"
  env_balanceOf :: "nat \<Rightarrow> address \<Rightarrow> address \<Rightarrow> exn + nat"
  env_random :: real
  env_getGasPrice :: "nat \<Rightarrow> 'w \<Rightarrow> (exn + nat) \<times> 'w"
  env_getBalance :: "nat \<Rightarrow> address \<Rightarrow> 'w \<Rightarrow> (exn + nat) \<times> 'w"
  env_allowance :: "nat \<Rightarrow> address \<Rightarrow> address \<Rightarrow> address \<Rightarrow> 'w \<Rightarrow> (exn + nat) \<times> 'w"
  env_tokenBalance :: "nat \<Rightarrow> address \<Rightarrow> address \<Rightarrow> 'w \<Rightarrow> (exn + nat) \<times> 'w"
  env_estimateGas :: "nat \<Rightarrow> address \<Rightarrow> quote_tx \<Rightarrow> 'w \<Rightarrow> (exn + nat) \<times> 'w"
  env_sendTransaction :: "nat \<Rightarrow> address \<Rightarrow> tx_request \<Rightarrow> 'w \<Rightarrow> (exn + string) \<times> 'w"
  env_wait :: "nat \<Rightarrow> string \<Rightarrow> 'w \<Rightarrow> (exn + unit) \<times> 'w"
  env_swapQuote :: "swap_params \<Rightarrow> 'w \<Rightarrow> (exn + quote_data option) \<times> 'w"
  env_relayQuote :: "relay_params \<Rightarrow> 'w \<Rightarrow> (exn + bridge_quote) \<times> 'w"
  env_relayStatus :: "string option \<Rightarrow> 'w \<Rightarrow> (exn + string) \<times> 'w"

text \<open>
  A program takes the world and the events so far and returns a value or a raised exception,
  with the new world and events.
\<close>

type_synonym ('w, 'a) prog = "'w \<times> event list \<Rightarrow> (exn + 'a) \<times> 'w \<times> event list"

definition ret :: "'a \<Rightarrow> ('w, 'a) prog" where
  "ret x = (\<lambda>s. (Inr x, s))"

definition throw :: "exn \<Rightarrow> ('w, 'a) prog" where
  "throw e = (\<lambda>s. (Inl e, s))"

definition lift :: "exn + 'a \<Rightarrow> ('w, 'a) prog" where
  "lift r = (\<lambda>s. (r, s))"

definition andThen :: "('w, 'a) prog \<Rightarrow> ('a \<Rightarrow> ('w, 'b) prog) \<Rightarrow> ('w, 'b) prog" where
  "andThen m f = (\<lambda>s. case m s of (Inl e, s') \<Rightarrow> (Inl e, s') | (Inr x, s') \<Rightarrow> f x s')"

definition tryCatch :: "('w, 'a) prog \<Rightarrow> (exn \<Rightarrow> ('w, 'a) prog) \<Rightarrow> ('w, 'a) prog" where
  "tryCatch m h = (\<lambda>s. case m s of (Inl e, s') \<Rightarrow> h e s' | (Inr x, s') \<Rightarrow> (Inr x, s'))"

definition call :: "('w \<Rightarrow> (exn + 'a) \<times> 'w) \<Rightarrow> ('w, 'a) prog" where
  "call f = (\<lambda>(w, t). case f w of (r, w') \<Rightarrow> (r, (w', t)))"

definition emit :: "event \<Rightarrow> ('w, unit) prog" where
  "emit e = (\<lambda>(w, t). (Inr (), (w, t @ [e])))"

text \<open>JavaScript truthiness of an optional string, and \<open>a || b\<close> on such values.\<close>

definition truthy :: "string option \<Rightarrow> bool" where
  "truthy x = (case x of None \<Rightarrow> False | Some v \<Rightarrow> v \<noteq> [])"

definition orElse :: "string option \<Rightarrow> string option \<Rightarrow> string option" where
  "orElse a b = (if truthy a then a else b)"

definition orElseNum :: "nat option \<Rightarrow> nat option \<Rightarrow> nat option" where
  "orElseNum a b = (case a of Some n \<Rightarrow> (if n \<noteq> 0 then a else b) | None \<Rightarrow> b)"

section \<open>Balance reader\<close>

text \<open>
  The body of the inner loop of \<open>checkTokenBalancesAcrossChains\<close>: \<open>decimals()\<close>, then
  \<open>balanceOf(walletAddress)\<close>; a failure of either is caught and becomes \<open>{error: message}\<close>.
\<close>

definition readToken :: "'w env \<Rightarrow> nat \<Rightarrow> address \<Rightarrow> address \<Rightarrow> token_entry" where
  "readToken env chainId addr walletAddress =
     (case env_decimals env chainId addr of
        Inl err \<Rightarrow> TokenError (message err)
      | Inr dec \<Rightarrow>
          (case env_balanceOf env chainId addr walletAddress of
             Inl err \<Rightarrow> TokenError (message err)
           | Inr bal \<Rightarrow> TokenBalance addr bal dec))"

text \<open>The inner loop assigns \<open>balances[chainId][symbol]\<close> for each token of the chain.\<close>

fun readTokens ::
  "'w env \<Rightarrow> nat \<Rightarrow> address \<Rightarrow> (string \<times> address) list \<Rightarrow> chain_data \<Rightarrow> chain_data" where
  "readTokens env chainId walletAddress [] cd = cd"
| "readTokens env chainId walletAddress ((smb, addr) # rest) cd =
     readTokens env chainId walletAddress rest
       (cd\<lparr>cd_tokens := (cd_tokens cd)(smb \<mapsto> readToken env chainId addr walletAddress)\<rparr>)"

text \<open>
  The outer loop over \<open>Object.entries(this.chainIds)\<close>. \<open>Object.entries\<close> of a missing
  \<open>tokenAddresses[chainId]\<close> would raise, which the outer \<open>catch\<close> rethrows.
\<close>

fun readChains ::
  "'w env \<Rightarrow> address \<Rightarrow> (string \<times> nat) list \<Rightarrow> balances \<Rightarrow> exn + balances" where
  "readChains env walletAddress [] b = Inr b"
| "readChains env walletAddress ((name, chainId) # rest) b =
     (case map_of tokenAddresses chainId of
        None \<Rightarrow> Inl (TypeError ''Cannot convert undefined or null to object'')
      | Some toks \<Rightarrow>
          readChains env walletAddress rest
            (AList.update chainId
               (readTokens env chainId walletAddress toks
                  \<lparr>cd_chainName = name, cd_tokens = Map.empty\<rparr>) b))"

definition checkTokenBalancesAcrossChains :: "'w env \<Rightarrow> address \<Rightarrow> exn + balances" where
  "checkTokenBalancesAcrossChains env walletAddress = readChains env walletAddress chainIds []"

section \<open>Gas price check\<close>

text \<open>
  \<open>MAX_GAS_PRICE_GWEI = 0.1\<close>. The price is an integer number of wei, so the test
  \<open>parseFloat(formatUnits(gasPrice, 'gwei')) <= 0.1\<close> is the test \<open>gasPrice \<le> 10^8\<close>: the decimal
  string of \<open>10^8\<close> wei is \<open>"0.1"\<close>, and a price of \<open>10^8 + 1\<close> wei or more parses to a number above
  the constant.
\<close>

definition MAX_GAS_PRICE_WEI :: nat where
  "MAX_GAS_PRICE_WEI = 10 ^ 8"

text \<open>\<open>currentGwei\<close> is the price the formatted string denotes, or \<open>None\<close> for \<open>"unknown"\<close>.\<close>

record gas_check =
  isAcceptable :: bool
  currentGwei :: "nat option"
  gasPrice :: nat

definition checkGasPrice :: "'w env \<Rightarrow> nat \<Rightarrow> ('w, gas_check) prog" where
  "checkGasPrice env provider =
     tryCatch
       (andThen (call (env_getGasPrice env provider))
          (\<lambda>gp. andThen (emit (GasPriceChecked provider (Inr gp)))
             (\<lambda>_. ret \<lparr>isAcceptable = (gp \<le> MAX_GAS_PRICE_WEI), currentGwei = Some gp,
                        gasPrice = gp\<rparr>)))
       (\<lambda>err. andThen (emit (GasPriceChecked provider (Inl err)))
          (\<lambda>_. ret \<lparr>isAcceptable = False, currentGwei = None, gasPrice = 0\<rparr>))"

section \<open>Token approval (src/utils/ethereum.js)\<close>

definition MaxUint256 :: nat where
  "MaxUint256 = 2 ^ 256 - 1"

text \<open>
  \<open>options\<close> is the optional \<open>gasPrice\<close> override. The contract constructor raises on a missing
  address; every exception is caught and gives \<open>false\<close>.
\<close>

definition approveToken ::
  "'w env \<Rightarrow> wallet \<Rightarrow> address option \<Rightarrow> address \<Rightarrow> nat option \<Rightarrow> ('w, bool) prog" where
  "approveToken env wlt tokenAddr spenderAddress options =
     tryCatch
       (case tokenAddr of
          None \<Rightarrow> throw (Error ''invalid contract address or ENS name'')
        | Some tokenAddr' \<Rightarrow>
            andThen (call (env_allowance env (wl_provider wlt) tokenAddr' (wl_address wlt)
                             spenderAddress))
              (\<lambda>currentAllowance.
                 if currentAllowance > 0 then ret True
                 else
                   let txParams = \<lparr>tx_to = tokenAddr', tx_data = Approve spenderAddress MaxUint256,
                                    tx_value = 0, tx_gasLimit = Some 100000,
                                    tx_gasPrice = options\<rparr>
                   in andThen (emit (SendTransaction (wl_provider wlt) txParams))
                        (\<lambda>_. andThen (call (env_sendTransaction env (wl_provider wlt)
                                               (wl_address wlt) txParams))
                           (\<lambda>tx. andThen (call (env_wait env (wl_provider wlt) tx))
                              (\<lambda>receipt. ret True)))))
       (\<lambda>err. ret False)"

section \<open>1inch quote and swap\<close>

text \<open>
  \<open>getQuote\<close> copies \<open>dstAmount\<close> to \<open>toAmount\<close> and \<open>dstToken\<close> to \<open>toToken\<close> when they are
  present; a failed request gives \<open>null\<close>.
\<close>

definition normalizeQuote :: "quote_data \<Rightarrow> quote_data" where
  "normalizeQuote d =
     (let d1 = (if q_dstAmount d \<noteq> None then d\<lparr>q_toAmount := q_dstAmount d\<rparr> else d)
      in if q_dstToken d1 \<noteq> None then d1\<lparr>q_toToken := q_dstToken d1\<rparr> else d1)"

definition getQuote ::
  "'w env \<Rightarrow> address \<Rightarrow> address \<Rightarrow> address \<Rightarrow> address option \<Rightarrow> nat \<Rightarrow> nat
     \<Rightarrow> ('w, quote_data option) prog" where
  "getQuote env account receiver from to amount chainId =
     (let params = \<lparr>sp_account = account, sp_receiver = receiver, sp_from = from,
                    sp_to = to, sp_amount = amount, sp_chainId = chainId\<rparr>
      in tryCatch
           (andThen (emit (SwapQuoteRequested params))
              (\<lambda>_. andThen (call (env_swapQuote env params))
                 (\<lambda>data. ret (map_option normalizeQuote data))))
           (\<lambda>err. ret None))"

record out_token =
  ot_address :: "address option"
  ot_symbol :: "string option"
  ot_decimals :: nat

text \<open>\<open>{success: false, error?}\<close> or \<open>{success: true, receipt, toAmount, toToken}\<close>.\<close>

datatype swap_result =
    SwapFailed "string option"
  | SwapSucceeded nat out_token

definition quoteToAmount :: "quote_data \<Rightarrow> nat" where
  "quoteToAmount q =
     (case q_toAmount q of
        Some a \<Rightarrow> a
      | None \<Rightarrow> (case q_dstAmount q of
                   Some a \<Rightarrow> a
                 | None \<Rightarrow> (case q_amount q of Some a \<Rightarrow> a | None \<Rightarrow> 0)))"

definition quoteToToken :: "quote_data \<Rightarrow> out_token" where
  "quoteToToken q =
     (let dstTokenAddress = (case q_dstToken q of None \<Rightarrow> None | Some ti \<Rightarrow> ti_address ti);
          dstTokenSymbol = (case q_dstToken q of None \<Rightarrow> None | Some ti \<Rightarrow> ti_symbol ti);
          dstTokenDecimals = (case q_dstToken q of None \<Rightarrow> None | Some ti \<Rightarrow> ti_decimals ti);
          toTokenAddress = (case q_toToken q of None \<Rightarrow> None | Some ti \<Rightarrow> ti_address ti);
          toTokenSymbol = (case q_toToken q of None \<Rightarrow> None | Some ti \<Rightarrow> ti_symbol ti);
          toTokenDecimals = (case q_toToken q of None \<Rightarrow> None | Some ti \<Rightarrow> ti_decimals ti)
      in \<lparr>ot_address =
             orElse toTokenAddress
               (orElse dstTokenAddress
                  (orElse (q_toTokenAddress q) (orElse (q_dst q) (Some ZERO_ADDRESS)))),
          ot_symbol = orElse toTokenSymbol (orElse dstTokenSymbol (Some ''Unknown'')),
          ot_decimals =
             (case orElseNum toTokenDecimals (orElseNum dstTokenDecimals (Some 18)) of
                Some n \<Rightarrow> n | None \<Rightarrow> 18)\<rparr>)"

text \<open>
  \<open>executeSwap\<close>. The transaction's \<open>gasPrice\<close> is written \<open>currentGwei * 1e9\<close>, the checked price
  again; when that product is not a whole number ethers rejects the request, which is one of
  the ways \<open>env_sendTransaction\<close> may fail.
\<close>

definition executeSwap ::
  "'w env \<Rightarrow> wallet \<Rightarrow> quote_data \<Rightarrow> nat option \<Rightarrow> ('w, swap_result) prog" where
  "executeSwap env wlt quoteData gasLimit =
     tryCatch
       (andThen (checkGasPrice env (wl_provider wlt))
          (\<lambda>chk.
             if \<not> isAcceptable chk then ret (SwapFailed (Some ''high_gas_price''))
             else
               (case q_tx quoteData of
                  None \<Rightarrow> throw (Error ''Invalid 1inch response: Missing tx field'')
                | Some qtx \<Rightarrow>
                    (case (qt_to qtx, qt_data qtx) of
                       (Some txTo, Some txData) \<Rightarrow>
                         if txTo = [] \<or> txData = [] then
                           throw (Error ''Invalid 1inch response: Missing required tx fields'')
                         else
                           let txValue = (case qt_value qtx of Some v \<Rightarrow> v | None \<Rightarrow> 0) in
                           andThen
                             (case gasLimit of
                                Some gl \<Rightarrow> ret gl
                              | None \<Rightarrow>
                                  andThen (call (env_estimateGas env (wl_provider wlt)
                                                   (wl_address wlt) qtx))
                                    (\<lambda>gasEstimate. ret (gasEstimate * 120 div 100)))
                             (\<lambda>gl.
                                let txParams = \<lparr>tx_to = txTo, tx_data = Raw txData,
                                                 tx_value = txValue, tx_gasLimit = Some gl,
                                                 tx_gasPrice = currentGwei chk\<rparr>
                                in andThen (emit (SendTransaction (wl_provider wlt) txParams))
                                     (\<lambda>_. andThen (call (env_sendTransaction env (wl_provider wlt)
                                                            (wl_address wlt) txParams))
                                        (\<lambda>tx. andThen (call (env_wait env (wl_provider wlt) tx))
                                           (\<lambda>receipt.
                                              ret (SwapSucceeded (quoteToAmount quoteData)
                                                     (quoteToToken quoteData))))))
                     | _ \<Rightarrow>
                         throw (Error ''Invalid 1inch response: Missing required tx fields'')))))
       (\<lambda>err. ret (SwapFailed None))"

section \<open>Relay quote, bridge transaction and status\<close>

text \<open>\<open>this.tokenAddresses[chainId][symbol]\<close>: a missing chain raises, a missing symbol is \<open>undefined\<close>.\<close>

definition tokenAddressOf :: "nat \<Rightarrow> string option \<Rightarrow> exn + address option" where
  "tokenAddressOf chainId smb =
     (case map_of tokenAddresses chainId of
        None \<Rightarrow> Inl (TypeError ''Cannot read properties of undefined'')
      | Some toks \<Rightarrow> Inr (case smb of None \<Rightarrow> None | Some s \<Rightarrow> map_of toks s))"

definition requestBridgeQuote :: "'w env \<Rightarrow> bridge_params \<Rightarrow> ('w, bridge_quote) prog" where
  "requestBridgeQuote env params =
     andThen (emit (BridgeQuoteRequested params))
       (\<lambda>_. andThen
          (if \<not> truthy (bp_destinationCurrency params) \<and> truthy (bp_targetSymbol params) then
             lift (tokenAddressOf (bp_destinationChainId params) (bp_targetSymbol params))
           else if \<not> truthy (bp_destinationCurrency params) then
             lift (tokenAddressOf (bp_destinationChainId params) (bp_symbol params))
           else ret (bp_destinationCurrency params))
          (\<lambda>destinationCurrency.
             call (env_relayQuote env
                     \<lparr>rp_user = bp_user params,
                      rp_recipient =
                        (case orElse (bp_recipient params) (Some (bp_user params)) of
                           Some r \<Rightarrow> r | None \<Rightarrow> bp_user params),
                      rp_originChainId = bp_originChainId params,
                      rp_destinationChainId = bp_destinationChainId params,
                      rp_originCurrency = bp_tokenAddress params,
                      rp_destinationCurrency = destinationCurrency,
                      rp_amount = bp_amount params,
                      rp_slippageTolerance =
                        (if bp_slippageTolerance params = [] then ''0.5''
                         else bp_slippageTolerance params)\<rparr>)))"

record bridge_result =
  br_tx :: string
  br_requestId :: "string option"

definition no_steps :: exn where
  "no_steps = Error ''Invalid quote response: No steps found''"

definition no_deposit_step :: exn where
  "no_deposit_step = Error ''Invalid quote response: No deposit step found''"

text \<open>
  \<open>executeBridgeTransaction(wallet, quoteResponse)\<close>: the wallet is reconnected to the
  provider built from \<open>rpcUrls[txData.chainId]\<close>, so only its address is used. A first item
  without \<open>data\<close> raises when \<open>txData.chainId\<close> is read. The default gas price \<open>0.15 * 1e9\<close>
  is \<open>150000000\<close>.
\<close>

definition executeBridgeTransaction ::
  "'w env \<Rightarrow> wallet \<Rightarrow> bridge_quote \<Rightarrow> ('w, bridge_result) prog" where
  "executeBridgeTransaction env wlt quoteResponse =
     (case bq_steps quoteResponse of
        None \<Rightarrow> throw no_steps
      | Some [] \<Rightarrow> throw no_steps
      | Some steps \<Rightarrow>
          (case find (\<lambda>step. step_id step = ''deposit'') steps of
             None \<Rightarrow> throw no_deposit_step
           | Some depositStep \<Rightarrow>
               (case step_items depositStep of
                  None \<Rightarrow> throw no_deposit_step
                | Some [] \<Rightarrow> throw no_deposit_step
                | Some (item # items) \<Rightarrow>
                    (case item_data item of
                       None \<Rightarrow> throw (TypeError ''Cannot read properties of undefined'')
                     | Some txData \<Rightarrow>
                         let connectedWallet = connect wlt (providerOf (pl_chainId txData));
                             txParams =
                               \<lparr>tx_to = pl_to txData, tx_data = Raw (pl_data txData),
                                tx_value = (case pl_value txData of Some v \<Rightarrow> v | None \<Rightarrow> 0),
                                tx_gasLimit = None,
                                tx_gasPrice =
                                  (case pl_gasPrice txData of
                                     Some g \<Rightarrow> Some g | None \<Rightarrow> Some 150000000)\<rparr>
                         in andThen (emit (SendTransaction (wl_provider connectedWallet) txParams))
                              (\<lambda>_. andThen (call (env_sendTransaction env
                                                     (wl_provider connectedWallet)
                                                     (wl_address connectedWallet) txParams))
                                 (\<lambda>tx. andThen (call (env_wait env (wl_provider connectedWallet)
                                                        tx))
                                    (\<lambda>receipt.
                                       ret \<lparr>br_tx = tx,
                                            br_requestId = step_requestId depositStep\<rparr>)))))))"

definition checkBridgeStatus :: "'w env \<Rightarrow> string option \<Rightarrow> ('w, string) prog" where
  "checkBridgeStatus env requestId = call (env_relayStatus env requestId)"

section \<open>Gas rescue\<close>

text \<open>\<open>ethers.utils.parseEther("0.0005")\<close>.\<close>

definition minGasETH :: nat where
  "minGasETH = 5 * 10 ^ 14"

text \<open>
  \<open>bridgeETHForGas(wallet, targetChainId)\<close>, second half: after the wrap, the WETH balance
  read, the quote with native ETH as destination currency, the gas check, the bridge
  transaction and the two status reads (one minute apart). Both a completed and a still
  pending status give \<open>true\<close>.
\<close>

definition gasBridgeSteps :: "'w env \<Rightarrow> wallet \<Rightarrow> nat \<Rightarrow> address \<Rightarrow> ('w, bool) prog" where
  "gasBridgeSteps env wlt targetChainId wethAddr =
     andThen (call (env_tokenBalance env BASE wethAddr (wl_address wlt)))
       (\<lambda>wethBalance.
     andThen (requestBridgeQuote env
                \<lparr>bp_user = wl_address wlt,
                 bp_recipient = Some (wl_address wlt),
                 bp_originChainId = BASE,
                 bp_destinationChainId = targetChainId,
                 bp_tokenAddress = Some wethAddr,
                 bp_symbol = Some ''WETH'',
                 bp_amount = GAS_BRIDGE_AMOUNT,
                 bp_slippageTolerance = ''0.5'',
                 bp_targetSymbol = None,
                 bp_destinationCurrency = Some ZERO_ADDRESS\<rparr>)
       (\<lambda>quoteResponse.
     andThen (checkGasPrice env BASE)
       (\<lambda>chkBridge.
          if \<not> isAcceptable chkBridge then ret False
          else
            andThen (executeBridgeTransaction env (connect wlt BASE) quoteResponse)
              (\<lambda>bridgeResult.
            andThen (checkBridgeStatus env (br_requestId bridgeResult))
              (\<lambda>initialStatus.
            andThen (checkBridgeStatus env (br_requestId bridgeResult))
              (\<lambda>updatedStatus.
                 if updatedStatus = ''completed'' then ret True else ret True))))))"

text \<open>
  \<open>bridgeETHForGas\<close>, first half: gas check, Base balance against the rescue amount plus
  \<open>0.0005\<close> ETH, second gas check, wrap of \<open>GAS_BRIDGE_AMOUNT\<close>. Every exception of either
  half is caught and gives \<open>false\<close>. The WETH contract object is built before the
  second gas check.
\<close>

definition bridgeETHForGas :: "'w env \<Rightarrow> wallet \<Rightarrow> nat \<Rightarrow> ('w, bool) prog" where
  "bridgeETHForGas env wlt targetChainId =
     tryCatch
       (andThen (checkGasPrice env BASE)
          (\<lambda>chk.
             if \<not> isAcceptable chk then ret False
             else
               andThen (call (env_getBalance env BASE (wl_address wlt)))
                 (\<lambda>baseETHBalance.
                    if baseETHBalance < GAS_BRIDGE_AMOUNT + 5 * 10 ^ 14 then ret False
                    else
                      andThen (lift (chainNameOf targetChainId))
                        (\<lambda>targetChainName.
                      andThen (lift (tokenAddressOf BASE (Some ''WETH'')))
                        (\<lambda>baseWETHAddress.
                        (case baseWETHAddress of
                           None \<Rightarrow> throw (Error ''invalid contract address or ENS name'')
                         | Some wethAddr \<Rightarrow>
                             andThen (checkGasPrice env BASE)
                               (\<lambda>chkWrap.
                                  if \<not> isAcceptable chkWrap then ret False
                                  else
                                    let wrapParams =
                                          \<lparr>tx_to = wethAddr, tx_data = Deposit,
                                           tx_value = GAS_BRIDGE_AMOUNT,
                                           tx_gasLimit = Some 100000,
                                           tx_gasPrice = Some (gasPrice chkWrap)\<rparr>
                                    in
                                    andThen (emit (SendTransaction BASE wrapParams))
                                      (\<lambda>_.
                                    andThen (call (env_sendTransaction env BASE (wl_address wlt)
                                                     wrapParams))
                                      (\<lambda>wrapTx.
                                    andThen (call (env_wait env BASE wrapTx))
                                      (\<lambda>receipt.
                                         gasBridgeSteps env wlt targetChainId wethAddr))))))))))
       (\<lambda>err. ret False)"

section \<open>The bridge cycle\<close>

text \<open>How \<open>executeBridgeCycle\<close> returns when it does not raise, one value per \<open>return\<close> site.\<close>

datatype cycle_end =
    NoSuitableToken
  | GasPriceTooHigh
  | InsufficientGasETH
  | InsufficientFunds
  | EthNotImplemented
  | CycleDone

text \<open>
  Steps 12 and 13: gas check, bridge transaction, one status read. The cycle completes
  whatever the status is.
\<close>

definition bridgeTxSteps :: "'w env \<Rightarrow> wallet \<Rightarrow> bridge_quote \<Rightarrow> ('w, cycle_end) prog" where
  "bridgeTxSteps env connectedWallet quoteResponse =
     andThen (checkGasPrice env (wl_provider connectedWallet))
       (\<lambda>chk.
          if \<not> isAcceptable chk then ret GasPriceTooHigh
          else
            andThen (executeBridgeTransaction env connectedWallet quoteResponse)
              (\<lambda>bridgeResult.
            andThen (checkBridgeStatus env (br_requestId bridgeResult))
              (\<lambda>initialStatus. ret CycleDone)))"

text \<open>
  The fallback for a swap result whose token address is the zero address: the address of
  the swap target in the registry of the source chain, and the swap target symbol.
\<close>

definition zeroAddressFallback :: "nat \<Rightarrow> string option \<Rightarrow> out_token \<Rightarrow> exn + out_token" where
  "zeroAddressFallback srcChainId swapTargetSymbol toToken =
     (if ot_address toToken = Some ZERO_ADDRESS then
        (case tokenAddressOf srcChainId swapTargetSymbol of
           Inl err \<Rightarrow> Inl err
         | Inr correctTokenAddress \<Rightarrow>
             Inr (toToken\<lparr>ot_address := correctTokenAddress, ot_symbol := swapTargetSymbol\<rparr>))
      else Inr toToken)"

text \<open>
  Step 11: the deposit step of the quote and its first item give the relayer address; the
  relayer is approved unless the token is the native placeholder. Then steps 12 and 13.
\<close>

definition approveRelayerSteps ::
  "'w env \<Rightarrow> wallet \<Rightarrow> out_token \<Rightarrow> bridge_quote \<Rightarrow> ('w, cycle_end) prog" where
  "approveRelayerSteps env connectedWallet toToken' quoteResponse =
     (case bq_steps quoteResponse of
        None \<Rightarrow> throw (TypeError ''Cannot read properties of undefined'')
      | Some steps \<Rightarrow>
          (case find (\<lambda>step. step_id step = ''deposit'') steps of
             None \<Rightarrow> throw no_deposit_step
           | Some depositStep \<Rightarrow>
               (case step_items depositStep of
                  None \<Rightarrow> throw no_deposit_step
                | Some [] \<Rightarrow> throw no_deposit_step
                | Some (item # items) \<Rightarrow>
                    (case item_data item of
                       None \<Rightarrow> throw (TypeError ''Cannot read properties of undefined'')
                     | Some txData \<Rightarrow>
                         let relayerAddress = pl_to txData in
                         if ot_address toToken' \<noteq> Some NATIVE_PLACEHOLDER then
                           andThen (checkGasPrice env (wl_provider connectedWallet))
                             (\<lambda>chk.
                                if \<not> isAcceptable chk then ret GasPriceTooHigh
                                else
                                  andThen (approveToken env connectedWallet
                                             (ot_address toToken') relayerAddress None)
                                    (\<lambda>bridgeApprovalSuccess.
                                       if \<not> bridgeApprovalSuccess then
                                         throw (Error (''Failed to approve ''
                                           @ (case ot_symbol toToken' of
                                                Some s \<Rightarrow> s | None \<Rightarrow> ''undefined'')
                                           @ '' for relayer''))
                                       else bridgeTxSteps env connectedWallet quoteResponse))
                         else bridgeTxSteps env connectedWallet quoteResponse))))"

text \<open>
  Steps 9 and 10, after a successful swap: destination chain, zero-address fallback,
  destination symbol and currency, bridge quote.
\<close>

definition bridgeSteps ::
  "'w env \<Rightarrow> wallet \<Rightarrow> string \<Rightarrow> best_token \<Rightarrow> string option \<Rightarrow> nat \<Rightarrow> out_token
     \<Rightarrow> ('w, cycle_end) prog" where
  "bridgeSteps env wlt slippage bestToken swapTargetSymbol toAmount toToken =
     (let connectedWallet = connect wlt (providerOf (sourceChainId bestToken)) in
      andThen (lift (findDestinationChain (env_random env) (sourceChainId bestToken)))
        (\<lambda>destinationChainId.
      andThen (lift (zeroAddressFallback (sourceChainId bestToken) swapTargetSymbol toToken))
        (\<lambda>toToken'.
      let destSymbol = (case swapTargetSymbol of None \<Rightarrow> None | Some s \<Rightarrow> TARGET_TOKENS s) in
      andThen (lift (tokenAddressOf destinationChainId destSymbol))
        (\<lambda>destinationCurrency.
      andThen (requestBridgeQuote env
                 \<lparr>bp_user = wl_address wlt,
                  bp_recipient = Some (wl_address wlt),
                  bp_originChainId = sourceChainId bestToken,
                  bp_destinationChainId = destinationChainId,
                  bp_tokenAddress = ot_address toToken',
                  bp_symbol = swapTargetSymbol,
                  bp_amount = toAmount,
                  bp_slippageTolerance = (if slippage = [] then ''0.5'' else slippage),
                  bp_targetSymbol = destSymbol,
                  bp_destinationCurrency = destinationCurrency\<rparr>)
        (\<lambda>quoteResponse.
           approveRelayerSteps env connectedWallet toToken' quoteResponse)))))"

text \<open>
  Step 8, the \<open>try\<close> block around the swap and the bridge: gas estimate, cost check, swap.
  Its \<open>catch\<close> returns when the message contains \<open>insufficient funds\<close> and rethrows otherwise.
\<close>

definition swapSteps ::
  "'w env \<Rightarrow> wallet \<Rightarrow> string \<Rightarrow> best_token \<Rightarrow> string option \<Rightarrow> quote_data \<Rightarrow> quote_tx \<Rightarrow> nat
     \<Rightarrow> ('w, cycle_end) prog" where
  "swapSteps env wlt slippage bestToken swapTargetSymbol swapQuote qtx ethBalance =
     (let connectedWallet = connect wlt (providerOf (sourceChainId bestToken)) in
      tryCatch
        (andThen (call (env_estimateGas env (wl_provider connectedWallet)
                          (wl_address connectedWallet) qtx))
           (\<lambda>gasEstimate.
         andThen (call (env_getGasPrice env (wl_provider connectedWallet)))
           (\<lambda>gasPrice'.
              let gasCost = gasEstimate * gasPrice';
                  totalCost = gasCost + (case qt_value qtx of Some v \<Rightarrow> v | None \<Rightarrow> 0)
              in
              if ethBalance < totalCost then throw (Error ''Insufficient ETH for transaction'')
              else
                let gasLimit = gasEstimate * 120 div 100 in
                andThen (executeSwap env connectedWallet swapQuote (Some gasLimit))
                  (\<lambda>swapResult.
                     case swapResult of
                       SwapFailed err \<Rightarrow> throw (Error ''1inch swap failed'')
                     | SwapSucceeded toAmount toToken \<Rightarrow>
                         bridgeSteps env wlt slippage bestToken swapTargetSymbol toAmount
                           toToken))))
        (\<lambda>err.
           if sublist ''insufficient funds'' (message err) then ret InsufficientFunds
           else throw err))"

text \<open>
  The quote must carry a destination amount: \<open>toAmount\<close> or \<open>dstAmount\<close>, else \<open>amount\<close>
  is copied to \<open>toAmount\<close>, else the cycle raises.
\<close>

definition withDestinationAmount :: "quote_data \<Rightarrow> exn + quote_data" where
  "withDestinationAmount q =
     (if q_toAmount q = None \<and> q_dstAmount q = None then
        (case q_amount q of
           Some a \<Rightarrow> Inr (q\<lparr>q_toAmount := Some a\<rparr>)
         | None \<Rightarrow> Inl (Error ''Invalid swap quote response: Missing destination amount''))
      else Inr q)"

text \<open>
  Steps 5 to 7: swap target, 1inch quote and its validation, gas check, approval of the
  router.
\<close>

definition quoteSteps ::
  "'w env \<Rightarrow> wallet \<Rightarrow> string \<Rightarrow> best_token \<Rightarrow> nat \<Rightarrow> ('w, cycle_end) prog" where
  "quoteSteps env wlt slippage bestToken ethBalance =
     (let connectedWallet = connect wlt (providerOf (sourceChainId bestToken));
          swapTargetSymbol = TARGET_TOKENS (symbol bestToken);
          totalAmount = balance bestToken
      in
      andThen (lift (tokenAddressOf (sourceChainId bestToken) swapTargetSymbol))
        (\<lambda>swapTargetAddress.
      andThen (getQuote env (wl_address connectedWallet) (wl_address connectedWallet)
                 (tokenAddress bestToken) swapTargetAddress totalAmount
                 (sourceChainId bestToken))
        (\<lambda>swapQuote.
           case swapQuote of
             None \<Rightarrow> throw (Error ''Failed to get 1inch swap quote'')
           | Some q \<Rightarrow>
               (case q_tx q of
                  None \<Rightarrow> throw (Error ''Invalid swap quote response: Missing tx field'')
                | Some qtx \<Rightarrow>
                    andThen (lift (withDestinationAmount q))
                      (\<lambda>q'.
                         if \<not> truthy (qt_to qtx) then
                           throw (Error ''Failed to get 1inch router address'')
                         else
                           andThen (checkGasPrice env (wl_provider connectedWallet))
                             (\<lambda>chk.
                                if \<not> isAcceptable chk then ret GasPriceTooHigh
                                else
                                  andThen (approveToken env connectedWallet
                                             (Some (tokenAddress bestToken))
                                             (case qt_to qtx of Some a \<Rightarrow> a | None \<Rightarrow> [])
                                             None)
                                    (\<lambda>approvalSuccess.
                                       if \<not> approvalSuccess then
                                         throw (Error (''Failed to approve '' @ symbol bestToken
                                                       @ '' for 1inch router''))
                                       else
                                         swapSteps env wlt slippage bestToken swapTargetSymbol
                                           q' qtx ethBalance)))))))"

text \<open>
  Step 4: gas price check, then the native balance of the source chain; below
  \<open>0.0005\<close> ETH the cycle tries \<open>bridgeETHForGas\<close> and reads the balance once more.
\<close>

definition gasSteps ::
  "'w env \<Rightarrow> wallet \<Rightarrow> string \<Rightarrow> best_token \<Rightarrow> ('w, cycle_end) prog" where
  "gasSteps env wlt slippage bestToken =
     (let connectedWallet = connect wlt (providerOf (sourceChainId bestToken)) in
      andThen (checkGasPrice env (wl_provider connectedWallet))
        (\<lambda>chk.
           if \<not> isAcceptable chk then ret GasPriceTooHigh
           else
             andThen (call (env_getBalance env (wl_provider connectedWallet)
                              (wl_address connectedWallet)))
               (\<lambda>ethBalance.
                  if ethBalance < minGasETH then
                    andThen (bridgeETHForGas env wlt (sourceChainId bestToken))
                      (\<lambda>bridgeSuccess.
                         if bridgeSuccess then
                           andThen (call (env_getBalance env (wl_provider connectedWallet)
                                            (wl_address connectedWallet)))
                             (\<lambda>updatedEthBalance.
                                if updatedEthBalance > minGasETH then
                                  quoteSteps env wlt slippage bestToken ethBalance
                                else ret InsufficientGasETH)
                         else ret InsufficientGasETH)
                  else quoteSteps env wlt slippage bestToken ethBalance)))"

text \<open>
  \<open>executeBridgeCycle(wallet, config)\<close>; \<open>slippage\<close> is \<open>config.SLIPPAGE_TOLERANCE\<close>. The outer
  \<open>catch\<close> logs and rethrows.
\<close>

definition executeBridgeCycle :: "'w env \<Rightarrow> wallet \<Rightarrow> string \<Rightarrow> ('w, cycle_end) prog" where
  "executeBridgeCycle env wlt slippage =
     andThen (lift (checkTokenBalancesAcrossChains env (wl_address wlt)))
       (\<lambda>balances.
     andThen (lift (findBestTokenToBridge balances))
       (\<lambda>bestToken.
          case bestToken of
            None \<Rightarrow> ret NoSuitableToken
          | Some bestToken' \<Rightarrow>
              if symbol bestToken' \<noteq> ''ETH'' then gasSteps env wlt slippage bestToken'
              else ret EthNotImplemented))"

section \<open>Specification predicates and example snapshots\<close>

text \<open>
  A chain \<open>c\<close> of the snapshot qualifies for a symbol with balance \<open>bal\<close> when its entry for
  the symbol is a balance entry holding \<open>bal\<close>, at or above the symbol's minimum.
\<close>

definition qualifying :: "string \<Rightarrow> balances \<Rightarrow> nat \<Rightarrow> nat \<Rightarrow> bool" where
  "qualifying smb b c bal =
     list_ex (\<lambda>(c', cd). c' = c \<and>
        (case cd_tokens cd smb of
           Some (TokenBalance a bal' d) \<Rightarrow> bal' = bal \<and> minAmount smb \<le> bal
         | _ \<Rightarrow> False)) b"

text \<open>
  The bridge quote request of the gas rescue: WETH from Base to native ETH on the chain that
  lacks gas, with no target symbol.
\<close>

definition rescue_request :: "bridge_params \<Rightarrow> bool" where
  "rescue_request p \<longleftrightarrow>
     bp_originChainId p = BASE \<and> bp_symbol p = Some ''WETH'' \<and> bp_targetSymbol p = None \<and>
     bp_destinationCurrency p = Some ZERO_ADDRESS \<and> bp_amount p = GAS_BRIDGE_AMOUNT"

text \<open>
  The requests of a cycle that starts with the candidate \<open>bt\<close> and swaps to the symbol \<open>s'\<close>:
  a swap from the candidate's token to the registry address of \<open>s'\<close> on the source chain, and
  a bridge of \<open>s'\<close> with the candidate's symbol as target symbol, besides the rescue request.
\<close>

definition alternates :: "best_token \<Rightarrow> string \<Rightarrow> event \<Rightarrow> bool" where
  "alternates bt s' e =
     (case e of
        SwapQuoteRequested p \<Rightarrow>
          sp_from p = tokenAddress bt \<and> sp_chainId p = sourceChainId bt \<and>
          tokenAddressOf (sourceChainId bt) (Some s') = Inr (sp_to p)
      | BridgeQuoteRequested p \<Rightarrow>
          rescue_request p \<or> bp_symbol p = Some s' \<and> bp_targetSymbol p = Some (symbol bt)
      | _ \<Rightarrow> True)"



text \<open>Example snapshots over the four supported chains (USDC and WETH balances per chain).\<close>

definition token_map :: "address \<Rightarrow> nat \<Rightarrow> address \<Rightarrow> nat \<Rightarrow> string \<Rightarrow> token_entry option" where
  "token_map usdcAddr usdc wethAddr weth =
     [''USDC'' \<mapsto> TokenBalance usdcAddr usdc 6, ''WETH'' \<mapsto> TokenBalance wethAddr weth 18]"

definition snapshot_of :: "nat \<Rightarrow> nat \<Rightarrow> nat \<Rightarrow> nat \<Rightarrow> balances" where
  "snapshot_of baseWeth baseUsdc arbWeth arbUsdc =
     [(8453,  \<lparr>cd_chainName = ''base'', cd_tokens =
                  token_map ''0x833589fCD6eDb6E08f4c7C32D4f71b54bdA02913'' baseUsdc
                            ''0x4200000000000000000000000000000000000006'' baseWeth\<rparr>),
      (42161, \<lparr>cd_chainName = ''arbitrum'', cd_tokens =
                  token_map ''0xaf88d065e77c8cC2239327C5EDb3A432268e5831'' arbUsdc
                            ''0x82aF49447D8a07e3bd95BD0d56f35241523fBab1'' arbWeth\<rparr>),
      (10,    \<lparr>cd_chainName = ''optimism'', cd_tokens =
                  token_map ''0x0b2C639c533813f4Aa9D7837CAf62653d097Ff85'' 0
                            ''0x4200000000000000000000000000000000000006'' 0\<rparr>),
      (59144, \<lparr>cd_chainName = ''linea'', cd_tokens =
                  token_map ''0x176211869cA2b568f2A7D4EE941E073a821EE1ff'' 0
                            ''0xe5D7C2a44FfDDf6b295A15c148167daaAf5Cf34f'' 0\<rparr>)]"

section \<open>The gas gate over event traces\<close>

text \<open>Whether the outcome of a gas price read lets a write go ahead.\<close>

fun acceptable :: "exn + nat \<Rightarrow> bool" where
  "acceptable (Inl err) = False"
| "acceptable (Inr gp) = (gp \<le> MAX_GAS_PRICE_WEI)"

text \<open>
  A trace is read by a small automaton. An acceptable gas check arms the gate, a
  transaction needs the armed gate and disarms it, a quote request disarms it too, a failed
  or too high gas check shuts the gate, and nothing may follow a shut gate. \<open>Breach\<close>
  records a violation.
\<close>

datatype gate = Idle | Armed | Shut | Breach

fun gate_step :: "gate \<Rightarrow> event \<Rightarrow> gate" where
  "gate_step Breach e = Breach"
| "gate_step Shut e = Breach"
| "gate_step g (GasPriceChecked c r) = (if acceptable r then Armed else Shut)"
| "gate_step Armed (SendTransaction c tx) = Idle"
| "gate_step Idle (SendTransaction c tx) = Breach"
| "gate_step g (SwapQuoteRequested p) = Idle"
| "gate_step g (BridgeQuoteRequested p) = Idle"

definition gate_of :: "event list \<Rightarrow> gate" where
  "gate_of t = foldl gate_step Idle t"

definition ready :: "event list \<Rightarrow> bool" where
  "ready t \<longleftrightarrow> gate_of t = Idle \<or> gate_of t = Armed"

definition armed :: "event list \<Rightarrow> bool" where
  "armed t \<longleftrightarrow> gate_of t = Armed"

definition shut :: "event list \<Rightarrow> bool" where
  "shut t \<longleftrightarrow> gate_of t = Shut"

definition sound :: "event list \<Rightarrow> bool" where
  "sound t \<longleftrightarrow> gate_of t \<noteq> Breach"

text \<open>
  \<open>triple P m Q\<close>: started on a trace satisfying \<open>P\<close>, the program \<open>m\<close> ends with a result and
  a trace satisfying \<open>Q\<close>. \<open>stable I\<close>: the trace property \<open>I\<close> survives any further event.
\<close>

definition triple ::
  "(event list \<Rightarrow> bool) \<Rightarrow> ('w, 'a) prog \<Rightarrow> (exn + 'a \<Rightarrow> event list \<Rightarrow> bool) \<Rightarrow> bool" where
  "triple P m Q \<longleftrightarrow> (\<forall>s r s'. P (snd s) \<longrightarrow> m s = (r, s') \<longrightarrow> Q r (snd s'))"

definition stable :: "(event list \<Rightarrow> bool) \<Rightarrow> bool" where
  "stable I \<longleftrightarrow> (\<forall>t e. I t \<longrightarrow> I (t @ [e]))"

section \<open>Example collaborators\<close>

definition example_wallet :: wallet where
  "example_wallet = \<lparr>wl_address = ''0xWallet'', wl_provider = 8453\<rparr>"

text \<open>A 1inch response that reports the zero address for the output token.\<close>

definition example_swap_quote :: quote_data where
  "example_swap_quote =
     \<lparr>q_tx = Some \<lparr>qt_to = Some ''0xRouter'', qt_data = Some ''0xswapdata'', qt_value = Some 0\<rparr>,
      q_toAmount = None, q_dstAmount = Some 5000000, q_amount = None,
      q_toToken = None,
      q_dstToken = Some \<lparr>ti_address = Some ZERO_ADDRESS, ti_symbol = Some ''USDC'',
                          ti_decimals = Some 6\<rparr>,
      q_toTokenAddress = None, q_dst = None\<rparr>"

text \<open>A Relay quote whose deposit payload names chain 42161.\<close>

definition example_bridge_quote :: bridge_quote where
  "example_bridge_quote =
     \<lparr>bq_steps = Some
        [\<lparr>step_id = ''approve'', step_items = Some [], step_requestId = None\<rparr>,
         \<lparr>step_id = ''deposit'',
          step_items = Some [\<lparr>item_data = Some \<lparr>pl_to = ''0xRelayer'', pl_data = ''0xdeposit'',
                                                pl_value = Some 0, pl_gasPrice = None,
                                                pl_chainId = 42161\<rparr>\<rparr>],
          step_requestId = Some ''0xrequest''\<rparr>]\<rparr>"

text \<open>
  Collaborators that always answer the same: the gas price read gives \<open>gas\<close>, the native
  balance is \<open>eth\<close>, token balances are given by \<open>bal\<close>, allowances are zero and every
  transaction is accepted and confirmed.
\<close>

definition example_env :: "exn + nat \<Rightarrow> nat \<Rightarrow> (nat \<Rightarrow> address \<Rightarrow> exn + nat) \<Rightarrow> unit env" where
  "example_env gas eth bal =
     \<lparr>env_decimals = (\<lambda>c a. Inr (if tokenAddressOf c (Some ''USDC'') = Inr (Some a) then 6 else 18)),
      env_balanceOf = (\<lambda>c a holder. bal c a),
      env_random = 1 / 2,
      env_getGasPrice = (\<lambda>c w. (gas, w)),
      env_getBalance = (\<lambda>c a w. (Inr eth, w)),
      env_allowance = (\<lambda>c tok owner spender w. (Inr 0, w)),
      env_tokenBalance = (\<lambda>c tok holder w. (Inr 0, w)),
      env_estimateGas = (\<lambda>c a q w. (Inr 100000, w)),
      env_sendTransaction = (\<lambda>c a tx w. (Inr ''0xhash'', w)),
      env_wait = (\<lambda>c h w. (Inr (), w)),
      env_swapQuote = (\<lambda>p w. (Inr (Some example_swap_quote), w)),
      env_relayQuote = (\<lambda>p w. (Inr example_bridge_quote, w)),
      env_relayStatus = (\<lambda>rid w. (Inr ''pending'', w))\<rparr>"

text \<open>Token balances: \<open>n\<close> WETH on Base and nothing else; nothing at all.\<close>

definition weth_on_base :: "nat \<Rightarrow> nat \<Rightarrow> address \<Rightarrow> exn + nat" where
  "weth_on_base n c a =
     (if c = 8453 \<and> a = ''0x4200000000000000000000000000000000000006'' then Inr n else Inr 0)"

definition no_tokens :: "nat \<Rightarrow> address \<Rightarrow> exn + nat" where
  "no_tokens c a = Inr 0"


text \<open>The candidate found with 0.002 WETH on Base.\<close>

definition example_best :: best_token where
  "example_best =
     \<lparr>symbol = ''WETH'', sourceChainId = 8453, chainName = ''base'',
      tokenAddress = ''0x4200000000000000000000000000000000000006'',
      balance = 2000000000000000, decimals = 18, targetSymbol = Some ''USDC''\<rparr>"


text \<open>
  The events of a complete cycle with a gas price of 0.05 gwei: the swap quote request, the
  approval of the router, the swap, the bridge quote request, the approval of the relayer
  and the bridge deposit.
\<close>

definition example_trace :: "event list" where
  "example_trace =
     [GasPriceChecked 8453 (Inr 50000000),
      SwapQuoteRequested
        \<lparr>sp_account = ''0xWallet'', sp_receiver = ''0xWallet'',
         sp_from = ''0x4200000000000000000000000000000000000006'',
         sp_to = Some ''0x833589fCD6eDb6E08f4c7C32D4f71b54bdA02913'',
         sp_amount = 2000000000000000, sp_chainId = 8453\<rparr>,
      GasPriceChecked 8453 (Inr 50000000),
      SendTransaction 8453
        \<lparr>tx_to = ''0x4200000000000000000000000000000000000006'',
         tx_data = Approve ''0xRouter'' MaxUint256,
         tx_value = 0, tx_gasLimit = Some 100000, tx_gasPrice = None\<rparr>,
      GasPriceChecked 8453 (Inr 50000000),
      SendTransaction 8453
        \<lparr>tx_to = ''0xRouter'', tx_data = Raw ''0xswapdata'', tx_value = 0,
         tx_gasLimit = Some 120000, tx_gasPrice = Some 50000000\<rparr>,
      BridgeQuoteRequested
        \<lparr>bp_user = ''0xWallet'', bp_recipient = Some ''0xWallet'',
         bp_originChainId = 8453, bp_destinationChainId = 10,
         bp_tokenAddress = Some ''0x833589fCD6eDb6E08f4c7C32D4f71b54bdA02913'',
         bp_symbol = Some ''USDC'', bp_amount = 5000000,
         bp_slippageTolerance = ''0.5'', bp_targetSymbol = Some ''WETH'',
         bp_destinationCurrency = Some ''0x4200000000000000000000000000000000000006''\<rparr>,
      GasPriceChecked 8453 (Inr 50000000),
      SendTransaction 8453
        \<lparr>tx_to = ''0x833589fCD6eDb6E08f4c7C32D4f71b54bdA02913'',
         tx_data = Approve ''0xRelayer'' MaxUint256,
         tx_value = 0, tx_gasLimit = Some 100000, tx_gasPrice = None\<rparr>,
      GasPriceChecked 8453 (Inr 50000000),
      SendTransaction 42161
        \<lparr>tx_to = ''0xRelayer'', tx_data = Raw ''0xdeposit'', tx_value = 0,
         tx_gasLimit = None, tx_gasPrice = Some 150000000\<rparr>]"

text \<open>A quote without a deposit step.\<close>

definition example_quote_no_deposit :: bridge_quote where
  "example_quote_no_deposit =
     \<lparr>bq_steps = Some [\<lparr>step_id = ''approve'', step_items = Some [], step_requestId = None\<rparr>]\<rparr>"

text \<open>A response without a \<open>steps\<close> field.\<close>

definition example_quote_no_steps :: bridge_quote where
  "example_quote_no_steps = \<lparr>bq_steps = None\<rparr>"

text \<open>A quote whose deposit payload names chain 1, which is not a key of \<open>rpcUrls\<close>.\<close>

definition example_quote_chain_1 :: bridge_quote where
  "example_quote_chain_1 =
     \<lparr>bq_steps = Some
        [\<lparr>step_id = ''deposit'',
          step_items = Some [\<lparr>item_data = Some \<lparr>pl_to = ''0xRelayer'', pl_data = ''0xdeposit'',
                                                pl_value = Some 0, pl_gasPrice = None,
                                                pl_chainId = 1\<rparr>\<rparr>],
          step_requestId = Some ''0xrequest''\<rparr>]\<rparr>"

text \<open>The output token of a swap whose response reported the zero address.\<close>

definition example_zero_token :: out_token where
  "example_zero_token =
     \<lparr>ot_address = Some ZERO_ADDRESS, ot_symbol = Some ''USDC'', ot_decimals = 6\<rparr>"

text \<open>Token balances of 7 units everywhere, with a failing read of WETH on Arbitrum.\<close>

definition arbitrum_weth_down :: "nat \<Rightarrow> address \<Rightarrow> exn + nat" where
  "arbitrum_weth_down c a =
     (if c = 42161 \<and> a = ''0x82aF49447D8a07e3bd95BD0d56f35241523fBab1''
      then Inl (Error ''missing response'') else Inr 7)"

section \<open>Properties of token selection\<close>

lemmas selection_eval =
  snapshot_of_def token_map_def Object_entries_def chainNameOf_def chainIds_def
  minAmount_def MIN_BRIDGE_AMOUNTS_def TARGET_TOKENS_def qualifying_def
  findTokenBalanceOnChains_def findBestTokenToBridge_def svc_findBestTokenToBridge_def
  token_source.extend_def best_token.fields_def no_balance_def

lemma qualifying_Nil: "\<not> qualifying smb [] c bal"
  by (simp add: qualifying_def)

lemma qualifying_Cons:
  "qualifying smb (x # xs) c bal \<longleftrightarrow>
     ((\<exists>a d. fst x = c \<and> cd_tokens (snd x) smb = Some (TokenBalance a bal d) \<and> minAmount smb \<le> bal)
      \<or> qualifying smb xs c bal)"
  by (cases x) (auto simp: qualifying_def split: option.splits token_entry.splits)

lemma qualifying_set:
  "set xs = set ys \<Longrightarrow> qualifying smb xs c bal = qualifying smb ys c bal"
  by (simp add: qualifying_def list_ex_iff)

lemma qualifying_key: "qualifying smb b c bal \<Longrightarrow> c \<in> fst ` set b"
  by (force simp: qualifying_def list_ex_iff)

lemma qualifying_entries [simp]:
  "qualifying smb (Object_entries b) c bal = qualifying smb b c bal"
  by (rule qualifying_set) (simp add: Object_entries_def)

lemma best_step_None:
  "foldl (best_step smb) acc xs = None \<longleftrightarrow> acc = None \<and> (\<forall>c bal. \<not> qualifying smb xs c bal)"
proof (induction xs arbitrary: acc)
  case Nil
  show ?case by (simp add: qualifying_Nil)
next
  case (Cons x xs)
  obtain c cd where x: "x = (c, cd)" by (cases x)
  show ?case
    unfolding foldl_Cons Cons.IH qualifying_Cons x
    by (auto split: option.splits token_entry.splits simp: not_less)
qed

lemma best_step_Some:
  assumes "foldl (best_step smb) acc xs = Some (bal, c, d, a)"
  shows "(qualifying smb xs c bal \<or> acc = Some (bal, c, d, a)) \<and>
         (\<forall>c' bal'. qualifying smb xs c' bal' \<longrightarrow> bal' \<le> bal)"
proof -
  have "(qualifying smb xs c bal \<or> acc = Some (bal, c, d, a)) \<and>
        (\<forall>c' bal'. qualifying smb xs c' bal' \<longrightarrow> bal' \<le> bal) \<and>
        (\<forall>r. acc = Some r \<longrightarrow> fst r \<le> bal)"
    using assms
  proof (induction xs arbitrary: acc)
    case Nil
    then show ?case by (simp add: qualifying_Nil)
  next
    case (Cons x xs)
    obtain c0 cd where x: "x = (c0, cd)" by (cases x)
    from Cons.prems have f: "foldl (best_step smb) (best_step smb acc x) xs = Some (bal, c, d, a)"
      by simp
    note ih = Cons.IH[OF f]
    show ?case
      using ih unfolding qualifying_Cons x
      by (auto split: option.splits token_entry.splits if_splits simp: not_less)
  qed
  then show ?thesis by blast
qed

lemma chainNameOf_Inr: "x \<in> snd ` set chainIds \<Longrightarrow> \<exists>n. chainNameOf x = Inr n"
  by (auto simp: chainNameOf_def chainIds_def)

text \<open>With no qualifying chain the helper returns \<open>null\<close>; otherwise it returns the largest.\<close>

lemma findTokenBalanceOnChains_None:
  "(\<forall>c bal. \<not> qualifying smb b c bal) \<Longrightarrow> findTokenBalanceOnChains b smb = Inr None"
  using best_step_None[of smb None "Object_entries b"]
  by (simp add: findTokenBalanceOnChains_def)

lemma findTokenBalanceOnChains_Some:
  assumes keys: "fst ` set b \<subseteq> snd ` set chainIds"
    and q: "qualifying smb b c0 bal0"
  shows "\<exists>src. findTokenBalanceOnChains b smb = Inr (Some src) \<and> symbol src = smb \<and>
           qualifying smb b (sourceChainId src) (balance src) \<and>
           (\<forall>c bal. qualifying smb b c bal \<longrightarrow> bal \<le> balance src)"
proof -
  have "foldl (best_step smb) None (Object_entries b) \<noteq> None"
    using q best_step_None[of smb None "Object_entries b"] by auto
  then obtain bal c d a where f: "foldl (best_step smb) None (Object_entries b) = Some (bal, c, d, a)"
    by (cases "foldl (best_step smb) None (Object_entries b)") auto
  from best_step_Some[OF f] have qc: "qualifying smb b c bal"
    and mx: "\<forall>c' bal'. qualifying smb b c' bal' \<longrightarrow> bal' \<le> bal"
    by auto
  from qualifying_key[OF qc] keys have "c \<in> snd ` set chainIds" by blast
  then obtain n where n: "chainNameOf c = Inr n" using chainNameOf_Inr by blast
  show ?thesis using f n qc mx by (simp add: findTokenBalanceOnChains_def)
qed

text \<open>
  C1 (as amended). For \<open>findBestTokenToBridge\<close> of scripts/bridge.js, the function the cycle
  calls: on every snapshot over supported chains in which some chain holds a WETH balance at
  or above the 0.001 minimum, the candidate is WETH-sourced with target symbol USDC, whatever
  the USDC balances are, its chain qualifies, and no qualifying WETH balance is larger.
\<close>

theorem findBestTokenToBridge_WETH_first:
  assumes "fst ` set b \<subseteq> snd ` set chainIds"
    and "qualifying ''WETH'' b c0 bal0"
  shows "\<exists>cand. findBestTokenToBridge b = Inr (Some cand) \<and> symbol cand = ''WETH'' \<and>
           targetSymbol cand = Some ''USDC'' \<and>
           qualifying ''WETH'' b (sourceChainId cand) (balance cand) \<and>
           (\<forall>c bal. qualifying ''WETH'' b c bal \<longrightarrow> bal \<le> balance cand)"
proof -
  from findTokenBalanceOnChains_Some[OF assms] obtain src where
    s: "findTokenBalanceOnChains b ''WETH'' = Inr (Some src)" "symbol src = ''WETH''"
       "qualifying ''WETH'' b (sourceChainId src) (balance src)"
       "\<forall>c bal. qualifying ''WETH'' b c bal \<longrightarrow> bal \<le> balance src"
    by blast
  show ?thesis
    using s
    by (simp add: findBestTokenToBridge_def TARGET_TOKENS_def token_source.extend_def
        best_token.fields_def)
qed

theorem findBestTokenToBridge_WETH_first_witness:
  "fst ` set (snapshot_of (2 * 10 ^ 15) 0 (3 * 10 ^ 15) (5 * 10 ^ 9)) \<subseteq> snd ` set chainIds \<and>
   qualifying ''WETH'' (snapshot_of (2 * 10 ^ 15) 0 (3 * 10 ^ 15) (5 * 10 ^ 9)) 8453 (2 * 10 ^ 15) \<and>
   (\<exists>cand. findBestTokenToBridge (snapshot_of (2 * 10 ^ 15) 0 (3 * 10 ^ 15) (5 * 10 ^ 9)) = Inr (Some cand) \<and>
      symbol cand = ''WETH'' \<and> targetSymbol cand = Some ''USDC'' \<and>
      sourceChainId cand = 42161 \<and> balance cand = 3 * 10 ^ 15)"
proof -
  let ?b = "snapshot_of (2 * 10 ^ 15) 0 (3 * 10 ^ 15) (5 * 10 ^ 9)"
  have k: "fst ` set ?b \<subseteq> snd ` set chainIds"
    by (simp add: snapshot_of_def chainIds_def)
  have q: "qualifying ''WETH'' ?b 8453 (2 * 10 ^ 15)"
    by (simp add: selection_eval)
  have e: "findBestTokenToBridge ?b = Inr (Some cand) \<Longrightarrow> sourceChainId cand = 42161 \<and> balance cand = 3 * 10 ^ 15" for cand
    by (auto simp add: selection_eval)
  from findBestTokenToBridge_WETH_first[OF k q] e k q show ?thesis by blast
qed

text \<open>
  The method of the same name in the bridge service looks for USDC first and applies no
  minimum: with 0.002 WETH on Base and 5 USDC on Arbitrum it returns the USDC balance.
\<close>

theorem svc_findBestTokenToBridge_USDC_first:
  "qualifying ''WETH'' (snapshot_of (2 * 10 ^ 15) 0 0 (5 * 10 ^ 6)) 8453 (2 * 10 ^ 15) \<and>
   svc_findBestTokenToBridge (snapshot_of (2 * 10 ^ 15) 0 0 (5 * 10 ^ 6)) =
     Inr \<lparr>svc_symbol = ''USDC'', svc_sourceChainId = 42161, svc_chainName = ''arbitrum'',
          svc_tokenAddress = ''0xaf88d065e77c8cC2239327C5EDb3A432268e5831'',
          svc_balance = 5 * 10 ^ 6\<rparr>"
  by (simp add: selection_eval)

section \<open>Destination chain selection\<close>

lemma findDestinationChain_Inr:
  assumes "src \<in> {8453, 42161, 10, 59144}" and "0 \<le> rnd" and "rnd < 1"
  shows "\<exists>d. findDestinationChain rnd src = Inr d \<and> d \<in> {8453, 42161, 10, 59144} \<and> d \<noteq> src"
proof -
  let ?av = "filter (\<lambda>cid. cid \<noteq> src) (map snd chainIds)"
  let ?i = "nat \<lfloor>rnd * real (length ?av)\<rfloor>"
  have len: "length ?av = 3" using assms(1) by (auto simp: chainIds_def)
  have "rnd * real (length ?av) < 3" "0 \<le> rnd * real (length ?av)"
    using assms len by simp_all
  then have i: "?i < length ?av"
    using len by (simp add: floor_less_iff nat_less_iff)
  then have "?av ! ?i \<in> set ?av" by (rule nth_mem)
  then have d: "?av ! ?i \<in> {8453, 42161, 10, 59144}" "?av ! ?i \<noteq> src"
    by (auto simp: chainIds_def)
  have sup: "x \<in> {8453, 42161, 10, 59144} \<Longrightarrow> \<exists>n. chainNameOf x = Inr n" for x
    by (rule chainNameOf_Inr) (auto simp: chainIds_def)
  obtain sn where sn: "chainNameOf src = Inr sn" using sup[OF assms(1)] by blast
  obtain dn where dn: "chainNameOf (?av ! ?i) = Inr dn" using sup[OF d(1)] by blast
  show ?thesis using i d sn dn by (simp add: findDestinationChain_def Let_def)
qed

text \<open>
  C4. For a source chain among the four supported ones, and whatever \<open>Math.random()\<close> returns
  in \<open>[0, 1)\<close>, \<open>findDestinationChain\<close> returns one of the four chain ids, different from the
  source.
\<close>

theorem findDestinationChain_other_supported:
  assumes "src \<in> {8453, 42161, 10, 59144}" and "0 \<le> rnd" and "rnd < 1"
  shows "\<exists>d. findDestinationChain rnd src = Inr d \<and> d \<in> {8453, 42161, 10, 59144} \<and> d \<noteq> src"
  using assms by (rule findDestinationChain_Inr)

theorem findDestinationChain_other_supported_witness:
  "(8453::nat) \<in> {8453, 42161, 10, 59144} \<and> (0::real) \<le> 1 / 2 \<and> (1 / 2 :: real) < 1 \<and>
   findDestinationChain (1 / 2) 8453 = Inr 10"
proof -
  have e: "findDestinationChain (1 / 2) 8453 = Inr 10"
    by (simp add: findDestinationChain_def chainIds_def chainNameOf_def)
  from findDestinationChain_other_supported [of 8453 "1 / 2"] e show ?thesis by simp
qed

section \<open>Reading traces through the gate\<close>

lemma gate_of_Nil [simp]: "gate_of [] = Idle"
  by (simp add: gate_of_def)

lemma gate_of_snoc [simp]: "gate_of (t @ [e]) = gate_step (gate_of t) e"
  by (simp add: gate_of_def)

lemma foldl_Breach [simp]: "foldl gate_step Breach xs = Breach"
  by (induction xs) auto

lemma foldl_Shut: "foldl gate_step Shut xs \<noteq> Breach \<Longrightarrow> xs = []"
  by (cases xs) auto

lemma gate_of_append: "gate_of (xs @ ys) = foldl gate_step (gate_of xs) ys"
  by (simp add: gate_of_def)



lemma failed_check_last:
  assumes "gate_of (pre @ GasPriceChecked c r # post) \<noteq> Breach" and "\<not> acceptable r"
  shows "post = []"
proof -
  have "gate_step (gate_of pre) (GasPriceChecked c r) = Shut \<or>
        gate_step (gate_of pre) (GasPriceChecked c r) = Breach"
    using assms(2) by (cases "gate_of pre") auto
  with assms(1) show ?thesis
    by (auto simp: gate_of_append dest: foldl_Shut)
qed

lemma gate_weaken [simp]:
  "armed t \<Longrightarrow> ready t" "ready t \<Longrightarrow> sound t" "armed t \<Longrightarrow> sound t" "shut t \<Longrightarrow> sound t"
  by (auto simp: ready_def armed_def shut_def sound_def)

lemma ready_Nil [simp]: "ready []"
  by (simp add: ready_def)

section \<open>Rules for programs\<close>

lemma retE:
  assumes "ret x s = (r, s')" obtains "r = Inr x" "s' = s"
  using assms by (simp add: ret_def)

lemma throwE:
  assumes "throw e s = (r, s')" obtains "r = Inl e" "s' = s"
  using assms by (simp add: throw_def)

lemma liftE:
  assumes "lift v s = (r, s')" obtains "r = v" "s' = s"
  using assms by (simp add: lift_def)

lemma callE:
  assumes "call f s = (r, s')" obtains "snd s' = snd s"
  using assms by (cases s) (auto simp: call_def split: prod.splits)

lemma emitE:
  assumes "emit e s = (r, s')" obtains "r = Inr ()" "snd s' = snd s @ [e]"
  using assms by (cases s) (auto simp: emit_def)

lemma andThenE:
  assumes "andThen m f s = (r, s'')"
  obtains e where "m s = (Inl e, s'')" "r = Inl e"
  | x s' where "m s = (Inr x, s')" "f x s' = (r, s'')"
proof -
  obtain a b where "m s = (a, b)" by (cases "m s")
  with assms that show ?thesis
    by (cases a) (auto simp: andThen_def)
qed

lemma tryCatchE:
  assumes "tryCatch m h s = (r, s'')"
  obtains e s' where "m s = (Inl e, s')" "h e s' = (r, s'')"
  | x where "m s = (Inr x, s'')" "r = Inr x"
proof -
  obtain a b where "m s = (a, b)" by (cases "m s")
  with assms that show ?thesis
    by (cases a) (auto simp: tryCatch_def)
qed

lemmas progE = retE throwE liftE callE emitE andThenE tryCatchE

lemma tripleI: "(\<And>s r s'. P (snd s) \<Longrightarrow> m s = (r, s') \<Longrightarrow> Q r (snd s')) \<Longrightarrow> triple P m Q"
  unfolding triple_def by blast

lemma tripleD: "triple P m Q \<Longrightarrow> P (snd s) \<Longrightarrow> m s = (r, s') \<Longrightarrow> Q r (snd s')"
  unfolding triple_def by blast

lemma R_pre: "triple P' m Q \<Longrightarrow> (\<And>t. P t \<Longrightarrow> P' t) \<Longrightarrow> triple P m Q"
  unfolding triple_def by blast

lemma R_post: "triple P m Q' \<Longrightarrow> (\<And>r t. Q' r t \<Longrightarrow> Q r t) \<Longrightarrow> triple P m Q"
  unfolding triple_def by blast

lemma R_ret: "(\<And>t. P t \<Longrightarrow> Q (Inr x) t) \<Longrightarrow> triple P (ret x) Q"
  by (rule tripleI) (auto elim!: retE)

lemma R_throw: "(\<And>t. P t \<Longrightarrow> Q (Inl e) t) \<Longrightarrow> triple P (throw e) Q"
  by (rule tripleI) (auto elim!: throwE)

lemma R_if: "(c \<Longrightarrow> triple P a Q) \<Longrightarrow> (\<not> c \<Longrightarrow> triple P b Q) \<Longrightarrow> triple P (if c then a else b) Q"
  by simp

lemma R_option:
  "triple P a Q \<Longrightarrow> (\<And>y. triple P (b y) Q) \<Longrightarrow> triple P (case x of None \<Rightarrow> a | Some y \<Rightarrow> b y) Q"
  by (cases x) simp_all

lemma R_list:
  "triple P a Q \<Longrightarrow> (\<And>y ys. triple P (b y ys) Q) \<Longrightarrow>
     triple P (case x of [] \<Rightarrow> a | y # ys \<Rightarrow> b y ys) Q"
  by (cases x) simp_all

lemma R_seq:
  assumes "triple P m M"
    and "\<And>e t. M (Inl e) t \<Longrightarrow> Q (Inl e) t"
    and "\<And>x. triple (M (Inr x)) (k x) Q"
  shows "triple P (andThen m k) Q"
proof (rule tripleI)
  fix s r s' assume p: "P (snd s)" and run: "andThen m k s = (r, s')"
  from run show "Q r (snd s')"
  proof (rule andThenE)
    fix e assume m: "m s = (Inl e, s')" and r: "r = Inl e"
    from tripleD[OF assms(1) p m] have "M (Inl e) (snd s')" .
    with assms(2) r show ?thesis by simp
  next
    fix x s1 assume m: "m s = (Inr x, s1)" and k: "k x s1 = (r, s')"
    from tripleD[OF assms(1) p m] have "M (Inr x) (snd s1)" .
    from tripleD[OF assms(3) this k] show ?thesis .
  qed
qed

lemma R_catch:
  assumes "triple P m (\<lambda>r t. case r of Inl e \<Rightarrow> H t | Inr x \<Rightarrow> Q (Inr x) t)"
    and "\<And>e. triple H (h e) Q"
  shows "triple P (tryCatch m h) Q"
proof (rule tripleI)
  fix s r s' assume p: "P (snd s)" and run: "tryCatch m h s = (r, s')"
  from run show "Q r (snd s')"
  proof (rule tryCatchE)
    fix e s1 assume m: "m s = (Inl e, s1)" and h: "h e s1 = (r, s')"
    from tripleD[OF assms(1) p m] have "H (snd s1)" by simp
    from tripleD[OF assms(2) this h] show ?thesis .
  next
    fix x assume m: "m s = (Inr x, s')" and r: "r = Inr x"
    from tripleD[OF assms(1) p m] r show ?thesis by simp
  qed
qed

lemmas R_try = R_catch[where H = sound]

lemma call_t: "triple P (call f) (\<lambda>r t. P t)"
  by (rule tripleI) (auto elim!: callE)

lemma lift_t: "triple P (lift v) (\<lambda>r t. P t)"
  by (rule tripleI) (auto elim!: liftE)

lemma R_call:
  assumes "\<And>e t. P t \<Longrightarrow> Q (Inl e) t" and "\<And>x. triple P (k x) Q"
  shows "triple P (andThen (call f) k) Q"
  by (rule R_seq[OF call_t]) (use assms in auto)

lemma R_lift:
  assumes "\<And>e t. P t \<Longrightarrow> Q (Inl e) t" and "\<And>x. triple P (k x) Q"
  shows "triple P (andThen (lift v) k) Q"
  by (rule R_seq[OF lift_t]) (use assms in auto)

lemmas R_basic = R_call R_lift R_if R_option R_list R_ret R_throw

section \<open>Every write of the cycle passes the gate\<close>

lemma send_t: "triple armed (emit (SendTransaction c tx)) (\<lambda>r t. r = Inr () \<and> ready t)"
  by (rule tripleI) (auto elim!: emitE simp: armed_def ready_def)

lemma checkGasPrice_t:
  "triple ready (checkGasPrice env c)
     (\<lambda>r t. case r of Inl e \<Rightarrow> False
            | Inr chk \<Rightarrow> if isAcceptable chk then armed t else shut t)"
  unfolding checkGasPrice_def
  by (rule tripleI) (auto elim!: progE simp: ready_def armed_def shut_def)

lemma approveToken_t:
  "triple armed (approveToken env wlt ta sp opts)
     (\<lambda>r t. case r of Inl e \<Rightarrow> False | Inr b \<Rightarrow> ready t)"
  unfolding approveToken_def Let_def
  by (rule tripleI)
    (auto elim!: progE simp: armed_def ready_def split: option.splits if_splits)

lemma executeBridgeTransaction_t:
  "triple armed (executeBridgeTransaction env wlt q) (\<lambda>r t. ready t)"
  unfolding executeBridgeTransaction_def Let_def
  by (rule tripleI)
    (auto elim!: progE simp: armed_def ready_def split: option.splits if_splits list.splits)

lemma requestBridgeQuote_t:
  "triple ready (requestBridgeQuote env p) (\<lambda>r t. ready t)"
  unfolding requestBridgeQuote_def
  by (rule tripleI) (auto elim!: progE simp: ready_def split: option.splits if_splits)

lemma getQuote_t:
  "triple ready (getQuote env a b c d e f)
     (\<lambda>r t. case r of Inl e \<Rightarrow> False | Inr q \<Rightarrow> ready t)"
  unfolding getQuote_def Let_def
  by (rule tripleI) (auto elim!: progE simp: ready_def split: option.splits if_splits)

lemma checkBridgeStatus_t: "triple P (checkBridgeStatus env rid) (\<lambda>r t. P t)"
  unfolding checkBridgeStatus_def by (rule call_t)

text \<open>Sequencing rules, one per kind of step.\<close>

lemma R_status:
  assumes "\<And>e t. P t \<Longrightarrow> Q (Inl e) t" and "\<And>x. triple P (k x) Q"
  shows "triple P (andThen (checkBridgeStatus env rid) k) Q"
  by (rule R_seq[OF checkBridgeStatus_t]) (use assms in auto)

lemma R_getQuote:
  assumes "\<And>q. triple ready (k q) Q" and "\<And>t. P t \<Longrightarrow> ready t"
  shows "triple P (andThen (getQuote env a b c d e f) k) Q"
  by (rule R_pre[OF R_seq[OF getQuote_t]]) (use assms in auto)

lemma R_send:
  assumes "triple ready (k ()) Q"
  shows "triple armed (andThen (emit (SendTransaction c tx)) k) Q"
  by (rule R_seq[OF send_t]) (use assms in \<open>auto intro: R_pre\<close>)

lemma R_gas:
  assumes "triple shut A Q" and "\<And>chk. triple armed (B chk) Q" and "\<And>t. P t \<Longrightarrow> ready t"
  shows "triple P (andThen (checkGasPrice env c)
                     (\<lambda>chk. if \<not> isAcceptable chk then A else B chk)) Q"
proof (rule R_pre[OF R_seq[OF checkGasPrice_t]])
  fix chk
  show "triple (\<lambda>t. case (Inr chk :: exn + gas_check) of Inl e \<Rightarrow> False
                  | Inr chk \<Rightarrow> if isAcceptable chk then armed t else shut t)
          (if \<not> isAcceptable chk then A else B chk) Q"
    using assms(1) assms(2)[of chk] by (auto intro: R_pre)
qed (use assms(3) in auto)

lemma R_approve:
  assumes "\<And>b. triple ready (k b) Q"
  shows "triple armed (andThen (approveToken env wlt ta sp opts) k) Q"
  by (rule R_seq[OF approveToken_t]) (use assms in \<open>auto intro: R_pre\<close>)

lemma R_bridgeTx:
  assumes "\<And>e t. ready t \<Longrightarrow> Q (Inl e) t" and "\<And>x. triple ready (k x) Q"
  shows "triple armed (andThen (executeBridgeTransaction env wlt q) k) Q"
  by (rule R_seq[OF executeBridgeTransaction_t]) (use assms in auto)

lemma R_quote:
  assumes "\<And>e t. ready t \<Longrightarrow> Q (Inl e) t" and "\<And>x. triple ready (k x) Q"
    and "\<And>t. P t \<Longrightarrow> ready t"
  shows "triple P (andThen (requestBridgeQuote env p) k) Q"
  by (rule R_pre[OF R_seq[OF requestBridgeQuote_t]]) (use assms in auto)

lemmas R_gate = R_gas R_approve R_bridgeTx R_quote R_send R_getQuote R_status R_try R_basic

lemma andThen_ret: "andThen (ret x) k = k x"
  by (rule ext) (simp add: andThen_def ret_def)

lemma andThen_assoc: "andThen (andThen m f) k = andThen m (\<lambda>x. andThen (f x) k)"
  by (rule ext) (simp add: andThen_def split: prod.split sum.split)

lemma andThen_option:
  "andThen (case x of None \<Rightarrow> a | Some y \<Rightarrow> b y) k =
     (case x of None \<Rightarrow> andThen a k | Some y \<Rightarrow> andThen (b y) k)"
  by (cases x) simp_all

lemmas andThen_laws = andThen_ret andThen_assoc andThen_option

lemma executeSwap_t:
  "triple ready (executeSwap env wlt q gl)
     (\<lambda>r t. case r of Inl e \<Rightarrow> False
            | Inr sr \<Rightarrow> (case sr of SwapSucceeded a tok \<Rightarrow> ready t | SwapFailed e \<Rightarrow> sound t))"
  unfolding executeSwap_def Let_def
  apply (rule R_gate | simp add: andThen_laws split: prod.split sum.split)+
  done

lemma gasBridgeSteps_t:
  "triple ready (gasBridgeSteps env wlt tc wa)
     (\<lambda>r t. case r of Inl e \<Rightarrow> sound t | Inr b \<Rightarrow> sound t \<and> (b \<longrightarrow> ready t))"
  unfolding gasBridgeSteps_def
  apply (rule R_gate | simp)+
  done

lemma bridgeETHForGas_t:
  "triple ready (bridgeETHForGas env wlt tc)
     (\<lambda>r t. case r of Inl e \<Rightarrow> False | Inr b \<Rightarrow> sound t \<and> (b \<longrightarrow> ready t))"
  unfolding bridgeETHForGas_def Let_def
  apply (rule R_gate R_post[OF gasBridgeSteps_t] | (auto split: sum.splits)[1])+
  done

lemma R_swap:
  assumes "\<And>a tok. triple ready (k (SwapSucceeded a tok)) Q"
    and "\<And>err. triple sound (k (SwapFailed err)) Q"
    and "\<And>t. P t \<Longrightarrow> ready t"
  shows "triple P (andThen (executeSwap env wlt q gl) k) Q"
proof (rule R_pre[OF R_seq[OF executeSwap_t]])
  fix sr
  show "triple (\<lambda>t. case (Inr sr :: exn + swap_result) of Inl e \<Rightarrow> False
                  | Inr sr \<Rightarrow> (case sr of SwapSucceeded a tok \<Rightarrow> ready t
                               | SwapFailed e \<Rightarrow> sound t))
          (k sr) Q"
    using assms(1,2) by (cases sr) (auto intro: R_pre)
qed (use assms(3) in auto)

lemma R_rescue:
  assumes "triple ready A Q" and "triple sound B Q" and "\<And>t. P t \<Longrightarrow> ready t"
  shows "triple P (andThen (bridgeETHForGas env wlt tc) (\<lambda>b. if b then A else B)) Q"
proof (rule R_pre[OF R_seq[OF bridgeETHForGas_t]])
  fix b
  show "triple (\<lambda>t. case (Inr b :: exn + bool) of Inl e \<Rightarrow> False
                  | Inr b \<Rightarrow> sound t \<and> (b \<longrightarrow> ready t))
          (if b then A else B) Q"
    using assms(1,2) by (auto intro: R_pre)
qed (use assms(3) in auto)

lemma bridgeTxSteps_t:
  "triple ready (bridgeTxSteps env cw q) (\<lambda>r t. sound t)"
  unfolding bridgeTxSteps_def
  apply (rule R_gate | (auto split: sum.splits)[1])+
  done

lemma approveRelayerSteps_t:
  "triple ready (approveRelayerSteps env cw tok q) (\<lambda>r t. sound t)"
  unfolding approveRelayerSteps_def Let_def
  apply (rule R_gate bridgeTxSteps_t | (auto split: sum.splits)[1])+
  done

lemma bridgeSteps_t:
  "triple ready (bridgeSteps env wlt sl bt sts amt tok) (\<lambda>r t. sound t)"
  unfolding bridgeSteps_def Let_def
  apply (rule R_gate approveRelayerSteps_t | (auto split: sum.splits)[1])+
  done

lemma swapSteps_t:
  "triple ready (swapSteps env wlt sl bt sts q qtx eb) (\<lambda>r t. sound t)"
  unfolding swapSteps_def Let_def
  apply (rule R_gate R_swap R_post[OF bridgeSteps_t] | (auto split: sum.splits)[1])+
  done

lemma quoteSteps_t:
  "triple ready (quoteSteps env wlt sl bt eb) (\<lambda>r t. sound t)"
  unfolding quoteSteps_def Let_def
  apply (rule R_gate swapSteps_t | (auto split: sum.splits)[1])+
  done

lemma gasSteps_t:
  "triple ready (gasSteps env wlt sl bt) (\<lambda>r t. sound t)"
  unfolding gasSteps_def Let_def
  apply (rule R_gate R_rescue R_pre[OF quoteSteps_t] | (auto split: sum.splits)[1])+
  done

lemma executeBridgeCycle_t:
  "triple ready (executeBridgeCycle env wlt sl) (\<lambda>r t. sound t)"
  unfolding executeBridgeCycle_def
  apply (rule R_gate gasSteps_t | (auto split: sum.splits)[1])+
  done

lemma executeBridgeCycle_sound:
  assumes "executeBridgeCycle env wlt sl (w, []) = (r, (w', t))"
  shows "gate_of t \<noteq> Breach"
  using tripleD[OF executeBridgeCycle_t _ assms] by (simp add: sound_def)

section \<open>Evaluation of programs on the examples\<close>

lemma ret_apply: "ret x s = (Inr x, s)" by (simp add: ret_def)
lemma throw_apply: "throw e s = (Inl e, s)" by (simp add: throw_def)
lemma lift_apply: "lift r s = (r, s)" by (simp add: lift_def)
lemma andThen_apply:
  "andThen m f s = (case m s of (Inl e, s') \<Rightarrow> (Inl e, s') | (Inr x, s') \<Rightarrow> f x s')"
  by (simp add: andThen_def)
lemma tryCatch_apply:
  "tryCatch m h s = (case m s of (Inl e, s') \<Rightarrow> h e s' | (Inr x, s') \<Rightarrow> (Inr x, s'))"
  by (simp add: tryCatch_def)
lemma call_apply: "call f (w, t) = (case f w of (r, w') \<Rightarrow> (r, (w', t)))"
  by (simp add: call_def)
lemma emit_apply: "emit e (w, t) = (Inr (), (w, t @ [e]))"
  by (simp add: emit_def)

lemmas prog_eval = ret_apply throw_apply lift_apply andThen_apply tryCatch_apply call_apply
  emit_apply

lemma example_env_fields:
  "env_decimals (example_env gas eth bal) =
     (\<lambda>c a. Inr (if tokenAddressOf c (Some ''USDC'') = Inr (Some a) then 6 else 18))"
  "env_balanceOf (example_env gas eth bal) = (\<lambda>c a holder. bal c a)"
  "env_random (example_env gas eth bal) = 1 / 2"
  "env_getGasPrice (example_env gas eth bal) = (\<lambda>c w. (gas, w))"
  "env_getBalance (example_env gas eth bal) = (\<lambda>c a w. (Inr eth, w))"
  "env_allowance (example_env gas eth bal) = (\<lambda>c tok owner spender w. (Inr 0, w))"
  "env_tokenBalance (example_env gas eth bal) = (\<lambda>c tok holder w. (Inr 0, w))"
  "env_estimateGas (example_env gas eth bal) = (\<lambda>c a q w. (Inr 100000, w))"
  "env_sendTransaction (example_env gas eth bal) = (\<lambda>c a tx w. (Inr ''0xhash'', w))"
  "env_wait (example_env gas eth bal) = (\<lambda>c h w. (Inr (), w))"
  "env_swapQuote (example_env gas eth bal) = (\<lambda>p w. (Inr (Some example_swap_quote), w))"
  "env_relayQuote (example_env gas eth bal) = (\<lambda>p w. (Inr example_bridge_quote, w))"
  "env_relayStatus (example_env gas eth bal) = (\<lambda>rid w. (Inr ''pending'', w))"
  by (simp_all add: example_env_def)

lemmas table_defs = chainIds_def tokenAddresses_def TARGET_TOKENS_def MIN_BRIDGE_AMOUNTS_def
  minAmount_def GAS_BRIDGE_AMOUNT_def MAX_GAS_PRICE_WEI_def minGasETH_def BASE_def
  ZERO_ADDRESS_def NATIVE_PLACEHOLDER_def MaxUint256_def rpcUrls_def providerOf_def
  DEFAULT_PROVIDER_def

lemma example_snapshot:
  "checkTokenBalancesAcrossChains (example_env gas eth (weth_on_base n)) a =
     Inr (snapshot_of n 0 0 0)"
  by (simp add: checkTokenBalancesAcrossChains_def table_defs example_env_fields weth_on_base_def
      readToken_def snapshot_of_def token_map_def tokenAddressOf_def)

lemma example_selection:
  "findBestTokenToBridge (snapshot_of 2000000000000000 0 0 0) = Inr (Some example_best)"
  by (simp add: selection_eval example_best_def)

lemmas cycle_defs = gasSteps_def quoteSteps_def swapSteps_def bridgeSteps_def bridgeTxSteps_def
  approveRelayerSteps_def
  checkGasPrice_def approveToken_def getQuote_def executeSwap_def requestBridgeQuote_def
  executeBridgeTransaction_def checkBridgeStatus_def connect_def normalizeQuote_def
  withDestinationAmount_def tokenAddressOf_def zeroAddressFallback_def findDestinationChain_def
  chainNameOf_def quoteToAmount_def quoteToToken_def truthy_def orElse_def orElseNum_def
  bridgeETHForGas_def gasBridgeSteps_def


section \<open>Programs only add events\<close>

lemma stable_prefix: "stable (prefix xs)"
  by (simp add: stable_def)

lemma emit_inv: "stable I \<Longrightarrow> triple I (emit e) (\<lambda>r. I)"
  by (rule tripleI) (auto elim!: emitE simp: stable_def)

lemma R_inv:
  "triple I m (\<lambda>r. I) \<Longrightarrow> (\<And>x. triple I (k x) (\<lambda>r. I)) \<Longrightarrow> triple I (andThen m k) (\<lambda>r. I)"
  by (rule R_seq)

lemma R_try_inv:
  "triple I m (\<lambda>r. I) \<Longrightarrow> (\<And>e. triple I (h e) (\<lambda>r. I)) \<Longrightarrow> triple I (tryCatch m h) (\<lambda>r. I)"
  by (rule R_catch[where H = I]) (auto elim: R_post split: sum.splits)

lemmas R_stable = R_inv R_try_inv R_if R_option R_list R_ret R_throw call_t lift_t emit_inv

lemma checkGasPrice_inv: "stable I \<Longrightarrow> triple I (checkGasPrice env c) (\<lambda>r. I)"
  unfolding checkGasPrice_def
  apply (rule R_stable | assumption)+
  done

lemma approveToken_inv: "stable I \<Longrightarrow> triple I (approveToken env wlt ta sp opts) (\<lambda>r. I)"
  unfolding approveToken_def Let_def
  apply (rule R_stable | assumption)+
  done

lemma executeBridgeTransaction_inv:
  "stable I \<Longrightarrow> triple I (executeBridgeTransaction env wlt q) (\<lambda>r. I)"
  unfolding executeBridgeTransaction_def Let_def
  apply (rule R_stable | assumption)+
  done

lemma bridgeTxSteps_inv: "stable I \<Longrightarrow> triple I (bridgeTxSteps env cw q) (\<lambda>r. I)"
  unfolding bridgeTxSteps_def checkBridgeStatus_def
  apply (rule R_stable checkGasPrice_inv executeBridgeTransaction_inv | assumption)+
  done

lemma approveRelayerSteps_inv:
  "stable I \<Longrightarrow> triple I (approveRelayerSteps env cw tok q) (\<lambda>r. I)"
  unfolding approveRelayerSteps_def Let_def
  apply (rule R_stable checkGasPrice_inv approveToken_inv bridgeTxSteps_inv | assumption)+
  done

section \<open>Selection failure\<close>

lemma findBestTokenToBridge_not_found:
  assumes "\<forall>c bal. \<not> qualifying ''WETH'' b c bal" and "\<forall>c bal. \<not> qualifying ''USDC'' b c bal"
  shows "findBestTokenToBridge b = Inl no_balance"
  using findTokenBalanceOnChains_None[OF assms(1)] findTokenBalanceOnChains_None[OF assms(2)]
  by (simp add: findBestTokenToBridge_def)

lemma findBestTokenToBridge_never_null: "findBestTokenToBridge b \<noteq> Inr None"
  by (simp add: findBestTokenToBridge_def split: sum.splits option.splits)

text \<open>
  C2. With no token balance at or above its minimum, \<open>findBestTokenToBridge\<close> raises
  \<open>No available token balance found on any chain\<close> and \<open>executeBridgeCycle\<close> ends by
  raising the same error: the branch of the cycle that would skip on a missing candidate
  is never taken. Evaluated for a wallet without any token.
\<close>

theorem executeBridgeCycle_no_balance_raises:
  "findBestTokenToBridge (snapshot_of 0 0 0 0) = Inl no_balance \<and>
   executeBridgeCycle (example_env (Inr 50000000) 10000000000000000 (weth_on_base 0))
     example_wallet ''0.5'' ((), []) = (Inl no_balance, ((), []))"
proof -
  have s: "findBestTokenToBridge (snapshot_of 0 0 0 0) = Inl no_balance"
    by (simp add: selection_eval)
  then show ?thesis
    by (simp add: executeBridgeCycle_def example_snapshot lift_apply andThen_apply
        example_wallet_def)
qed

section \<open>Gas gating of the cycle\<close>




section \<open>Failed gas price reads\<close>

lemma checkGasPrice_eval:
  "checkGasPrice env c (w, t) =
     (case env_getGasPrice env c w of
        (Inr gp, w') \<Rightarrow>
          (Inr \<lparr>isAcceptable = (gp \<le> MAX_GAS_PRICE_WEI), currentGwei = Some gp, gasPrice = gp\<rparr>,
           (w', t @ [GasPriceChecked c (Inr gp)]))
      | (Inl err, w') \<Rightarrow>
          (Inr \<lparr>isAcceptable = False, currentGwei = None, gasPrice = 0\<rparr>,
           (w', t @ [GasPriceChecked c (Inl err)])))"
  by (simp add: checkGasPrice_def prog_eval split: prod.split sum.split)

lemma executeSwap_sound:
  assumes "executeSwap env wlt q gl (w, []) = (r, (w', t))"
  shows "gate_of t \<noteq> Breach"
  using tripleD[OF executeSwap_t _ assms]
  by (auto simp: sound_def ready_def split: sum.splits swap_result.splits)

lemma bridgeETHForGas_sound:
  assumes "bridgeETHForGas env wlt tc (w, []) = (r, (w', t))"
  shows "gate_of t \<noteq> Breach"
  using tripleD[OF bridgeETHForGas_t _ assms]
  by (auto simp: sound_def split: sum.splits)

text \<open>
  C10. When the gas price query raises, \<open>checkGasPrice\<close> does not raise: it returns
  \<open>isAcceptable = false\<close> with a zero gas price and records the failed read. In each of its
  callers (\<open>executeSwap\<close>, \<open>bridgeETHForGas\<close> and \<open>executeBridgeCycle\<close>) nothing follows a gas
  check whose query raised: no transaction is submitted after it.
\<close>

theorem checkGasPrice_fail_closed:
  "(env_getGasPrice env c w = (Inl err, w1) \<longrightarrow>
      checkGasPrice env c (w, t) =
        (Inr \<lparr>isAcceptable = False, currentGwei = None, gasPrice = 0\<rparr>,
         (w1, t @ [GasPriceChecked c (Inl err)]))) \<and>
   (executeSwap env wlt quoteData gasLimit (w0, []) =
      (r1, (w', pre1 @ GasPriceChecked c (Inl err) # post1)) \<longrightarrow> post1 = []) \<and>
   (bridgeETHForGas env wlt targetChainId (w0, []) =
      (r2, (w', pre2 @ GasPriceChecked c (Inl err) # post2)) \<longrightarrow> post2 = []) \<and>
   (executeBridgeCycle env wlt slippage (w0, []) =
      (r3, (w', pre3 @ GasPriceChecked c (Inl err) # post3)) \<longrightarrow> post3 = [])"
proof (intro conjI impI)
  assume "env_getGasPrice env c w = (Inl err, w1)"
  then show "checkGasPrice env c (w, t) =
        (Inr \<lparr>isAcceptable = False, currentGwei = None, gasPrice = 0\<rparr>,
         (w1, t @ [GasPriceChecked c (Inl err)]))"
    by (simp add: checkGasPrice_eval)
next
  assume "executeSwap env wlt quoteData gasLimit (w0, []) =
      (r1, (w', pre1 @ GasPriceChecked c (Inl err) # post1))"
  from executeSwap_sound[OF this] show "post1 = []"
    by (rule failed_check_last) simp
next
  assume "bridgeETHForGas env wlt targetChainId (w0, []) =
      (r2, (w', pre2 @ GasPriceChecked c (Inl err) # post2))"
  from bridgeETHForGas_sound[OF this] show "post2 = []"
    by (rule failed_check_last) simp
next
  assume "executeBridgeCycle env wlt slippage (w0, []) =
      (r3, (w', pre3 @ GasPriceChecked c (Inl err) # post3))"
  from executeBridgeCycle_sound[OF this] show "post3 = []"
    by (rule failed_check_last) simp
qed

theorem checkGasPrice_fail_closed_witness:
  "env_getGasPrice (example_env (Inl (Error ''timeout'')) 10000000000000000
      (weth_on_base 2000000000000000)) 8453 () = (Inl (Error ''timeout''), ()) \<and>
   checkGasPrice (example_env (Inl (Error ''timeout'')) 10000000000000000
      (weth_on_base 2000000000000000)) 8453 ((), []) =
     (Inr \<lparr>isAcceptable = False, currentGwei = None, gasPrice = 0\<rparr>,
      ((), [GasPriceChecked 8453 (Inl (Error ''timeout''))])) \<and>
   executeSwap (example_env (Inl (Error ''timeout'')) 10000000000000000
      (weth_on_base 2000000000000000)) example_wallet example_swap_quote None ((), []) =
     (Inr (SwapFailed (Some ''high_gas_price'')),
      ((), [] @ GasPriceChecked 8453 (Inl (Error ''timeout'')) # [])) \<and>
   bridgeETHForGas (example_env (Inl (Error ''timeout'')) 10000000000000000
      (weth_on_base 2000000000000000)) example_wallet 42161 ((), []) =
     (Inr False, ((), [] @ GasPriceChecked 8453 (Inl (Error ''timeout'')) # [])) \<and>
   executeBridgeCycle (example_env (Inl (Error ''timeout'')) 10000000000000000
      (weth_on_base 2000000000000000)) example_wallet ''0.5'' ((), []) =
     (Inr GasPriceTooHigh, ((), [] @ GasPriceChecked 8453 (Inl (Error ''timeout'')) # []))"
proof -
  let ?env = "example_env (Inl (Error ''timeout'')) 10000000000000000
                (weth_on_base 2000000000000000)"
  have g: "env_getGasPrice ?env 8453 () = (Inl (Error ''timeout''), ())"
    by (simp add: example_env_fields)
  have swap: "executeSwap ?env example_wallet example_swap_quote None ((), []) =
     (Inr (SwapFailed (Some ''high_gas_price'')),
      ((), [] @ GasPriceChecked 8453 (Inl (Error ''timeout'')) # []))"
    by (simp add: executeSwap_def checkGasPrice_eval prog_eval example_env_fields
        example_wallet_def)
  have rescue: "bridgeETHForGas ?env example_wallet 42161 ((), []) =
     (Inr False, ((), [] @ GasPriceChecked 8453 (Inl (Error ''timeout'')) # []))"
    by (simp add: bridgeETHForGas_def checkGasPrice_eval prog_eval example_env_fields BASE_def)
  have run: "executeBridgeCycle ?env example_wallet ''0.5'' ((), []) =
     (Inr GasPriceTooHigh, ((), [] @ GasPriceChecked 8453 (Inl (Error ''timeout'')) # []))"
    apply (simp add: executeBridgeCycle_def example_snapshot example_selection lift_apply
        andThen_apply example_wallet_def)
    apply (simp add: example_best_def)
    apply (simp add: gasSteps_def checkGasPrice_eval connect_def providerOf_def rpcUrls_def
        prog_eval example_env_fields Let_def)
    done
  from checkGasPrice_fail_closed[where env = ?env and c = 8453 and w = "()"
      and err = "Error ''timeout''" and ?w1.0 = "()" and t = "[]" and wlt = example_wallet
      and slippage = "''0.5''" and ?w0.0 = "()" and w' = "()"
      and quoteData = example_swap_quote and gasLimit = None and targetChainId = 42161
      and ?r1.0 = "Inr (SwapFailed (Some ''high_gas_price''))" and ?r2.0 = "Inr False"
      and ?r3.0 = "Inr GasPriceTooHigh"
      and ?pre1.0 = "[]" and ?post1.0 = "[]" and ?pre2.0 = "[]" and ?post2.0 = "[]"
      and ?pre3.0 = "[]" and ?post3.0 = "[]"] g swap rescue run
  show ?thesis by simp
qed

section \<open>Gas rescue with a low reserve\<close>

text \<open>
  C6. When every read of the Base native balance gives less than the rescue amount plus
  0.0005 ETH, \<open>bridgeETHForGas\<close> returns \<open>false\<close> and the only thing it has done is one gas
  price read on Base: no transaction is submitted on any chain.
\<close>

theorem bridgeETHForGas_low_reserve:
  assumes "\<And>w b w1. env_getBalance env BASE (wl_address wlt) w = (Inr b, w1) \<Longrightarrow>
             b < GAS_BRIDGE_AMOUNT + 5 * 10 ^ 14"
  shows "\<exists>w' x. bridgeETHForGas env wlt targetChainId (w, t) =
           (Inr False, (w', t @ [GasPriceChecked BASE x]))"
proof -
  obtain g w1 where g: "env_getGasPrice env BASE w = (g, w1)"
    by (cases "env_getGasPrice env BASE w")
  obtain b w2 where b: "env_getBalance env BASE (wl_address wlt) w1 = (b, w2)"
    by (cases "env_getBalance env BASE (wl_address wlt) w1")
  show ?thesis
  proof (cases b)
    case (Inl e)
    with g b show ?thesis
      by (cases g) (auto simp: bridgeETHForGas_def checkGasPrice_eval prog_eval)
  next
    case (Inr bal)
    with b assms have "bal < GAS_BRIDGE_AMOUNT + 5 * 10 ^ 14" by blast
    with g b Inr show ?thesis
      by (cases g) (auto simp: bridgeETHForGas_def checkGasPrice_eval prog_eval)
  qed
qed

theorem bridgeETHForGas_low_reserve_witness:
  "env_getBalance (example_env (Inr 50000000) 800000000000000 (weth_on_base 0)) BASE
       (wl_address example_wallet) = (\<lambda>w. (Inr 800000000000000, w)) \<and>
   800000000000000 < GAS_BRIDGE_AMOUNT + 5 * 10 ^ 14 \<and>
   bridgeETHForGas (example_env (Inr 50000000) 800000000000000 (weth_on_base 0)) example_wallet
     42161 ((), []) = (Inr False, ((), [GasPriceChecked BASE (Inr 50000000)]))"
proof -
  let ?env = "example_env (Inr 50000000) 800000000000000 (weth_on_base 0)"
  have h: "env_getBalance ?env BASE (wl_address example_wallet) w = (Inr b, w1) \<Longrightarrow>
             b < GAS_BRIDGE_AMOUNT + 5 * 10 ^ 14" for w b w1
    by (auto simp: example_env_fields GAS_BRIDGE_AMOUNT_def)
  have e: "bridgeETHForGas ?env example_wallet 42161 ((), []) = (r, s) \<Longrightarrow>
             (r, s) = (Inr False, ((), [GasPriceChecked BASE (Inr 50000000)]))" for r s
    by (auto simp: bridgeETHForGas_def checkGasPrice_eval prog_eval example_env_fields
        GAS_BRIDGE_AMOUNT_def MAX_GAS_PRICE_WEI_def)
  from bridgeETHForGas_low_reserve[where env = ?env and wlt = example_wallet and w = "()"
      and targetChainId = 42161 and t = "[]", OF h] e
  show ?thesis by (auto simp: example_env_fields GAS_BRIDGE_AMOUNT_def)
qed

section \<open>The deposit step of a bridge quote\<close>

text \<open>
  A payload naming a chain that is not configured in \<open>rpcUrls\<close>: the transaction goes to the
  provider of the default url, not to chain 1.
\<close>

theorem executeBridgeTransaction_unconfigured_chain:
  "executeBridgeTransaction (example_env (Inr 50000000) 10000000000000000 (weth_on_base 0))
     example_wallet example_quote_chain_1 ((), []) =
     (Inr \<lparr>br_tx = ''0xhash'', br_requestId = Some ''0xrequest''\<rparr>,
      ((), [SendTransaction DEFAULT_PROVIDER
              \<lparr>tx_to = ''0xRelayer'', tx_data = Raw ''0xdeposit'', tx_value = 0,
               tx_gasLimit = None, tx_gasPrice = Some 150000000\<rparr>])) \<and>
   DEFAULT_PROVIDER \<noteq> 1"
  by (simp add: executeBridgeTransaction_def example_quote_chain_1_def prog_eval connect_def
      providerOf_def rpcUrls_def DEFAULT_PROVIDER_def example_env_fields Let_def)

lemma providerOf_configured: "c \<in> {8453, 42161, 10, 59144} \<Longrightarrow> providerOf c = c"
  by (auto simp: providerOf_def rpcUrls_def)

text \<open>
  C7 (as amended). \<open>executeBridgeTransaction\<close> takes the first step whose id is \<open>deposit\<close> and
  the payload of its first item. When the chain id inside the payload is one of the four
  configured in \<open>rpcUrls\<close>, the transaction built from the payload is handed to that chain,
  whatever provider the wallet was connected to; the result carries the hash that
  \<open>sendTransaction\<close> returned, after the confirmation wait, and a failure of either call is
  raised. A quote with no or empty \<open>steps\<close>, without a deposit step, or with no or empty items
  in it raises \<open>Invalid quote response\<close> and leaves world and events as they were.
\<close>

theorem executeBridgeTransaction_deposit:
  "(bq_steps q = Some steps \<and>
    find (\<lambda>step. step_id step = ''deposit'') steps = Some depositStep \<and>
    step_items depositStep = Some (item # items) \<and> item_data item = Some txData \<and>
    pl_chainId txData \<in> {8453, 42161, 10, 59144} \<longrightarrow>
      executeBridgeTransaction env wlt q (w, t) =
        (let txParams = \<lparr>tx_to = pl_to txData, tx_data = Raw (pl_data txData),
                         tx_value = (case pl_value txData of Some v \<Rightarrow> v | None \<Rightarrow> 0),
                         tx_gasLimit = None,
                         tx_gasPrice = (case pl_gasPrice txData of
                                          Some g \<Rightarrow> Some g | None \<Rightarrow> Some 150000000)\<rparr>;
             t' = t @ [SendTransaction (pl_chainId txData) txParams]
         in case env_sendTransaction env (pl_chainId txData) (wl_address wlt) txParams w of
              (Inl err, w1) \<Rightarrow> (Inl err, (w1, t'))
            | (Inr tx, w1) \<Rightarrow>
                (case env_wait env (pl_chainId txData) tx w1 of
                   (Inl err, w2) \<Rightarrow> (Inl err, (w2, t'))
                 | (Inr receipt, w2) \<Rightarrow>
                     (Inr \<lparr>br_tx = tx, br_requestId = step_requestId depositStep\<rparr>,
                      (w2, t'))))) \<and>
   (bq_steps q = None \<or> bq_steps q = Some [] \<longrightarrow>
      executeBridgeTransaction env wlt q (w, t) = (Inl no_steps, (w, t))) \<and>
   (bq_steps q = Some steps \<and> steps \<noteq> [] \<and>
    (find (\<lambda>step. step_id step = ''deposit'') steps = None \<or>
     (find (\<lambda>step. step_id step = ''deposit'') steps = Some depositStep \<and>
      (step_items depositStep = None \<or> step_items depositStep = Some []))) \<longrightarrow>
      executeBridgeTransaction env wlt q (w, t) = (Inl no_deposit_step, (w, t)))"
proof (intro conjI impI)
  assume a: "bq_steps q = Some steps \<and>
    find (\<lambda>step. step_id step = ''deposit'') steps = Some depositStep \<and>
    step_items depositStep = Some (item # items) \<and> item_data item = Some txData \<and>
    pl_chainId txData \<in> {8453, 42161, 10, 59144}"
  then have p: "providerOf (pl_chainId txData) = pl_chainId txData"
    by (intro providerOf_configured) simp
  from a have "steps \<noteq> []" by auto
  then obtain s ss where "steps = s # ss" by (cases steps) auto
  with a p show "executeBridgeTransaction env wlt q (w, t) =
        (let txParams = \<lparr>tx_to = pl_to txData, tx_data = Raw (pl_data txData),
                         tx_value = (case pl_value txData of Some v \<Rightarrow> v | None \<Rightarrow> 0),
                         tx_gasLimit = None,
                         tx_gasPrice = (case pl_gasPrice txData of
                                          Some g \<Rightarrow> Some g | None \<Rightarrow> Some 150000000)\<rparr>;
             t' = t @ [SendTransaction (pl_chainId txData) txParams]
         in case env_sendTransaction env (pl_chainId txData) (wl_address wlt) txParams w of
              (Inl err, w1) \<Rightarrow> (Inl err, (w1, t'))
            | (Inr tx, w1) \<Rightarrow>
                (case env_wait env (pl_chainId txData) tx w1 of
                   (Inl err, w2) \<Rightarrow> (Inl err, (w2, t'))
                 | (Inr receipt, w2) \<Rightarrow>
                     (Inr \<lparr>br_tx = tx, br_requestId = step_requestId depositStep\<rparr>,
                      (w2, t'))))"
    by (simp add: executeBridgeTransaction_def prog_eval connect_def Let_def
        split: prod.split sum.split)
next
  assume "bq_steps q = None \<or> bq_steps q = Some []"
  then show "executeBridgeTransaction env wlt q (w, t) = (Inl no_steps, (w, t))"
    by (auto simp: executeBridgeTransaction_def prog_eval)
next
  assume b: "bq_steps q = Some steps \<and> steps \<noteq> [] \<and>
    (find (\<lambda>step. step_id step = ''deposit'') steps = None \<or>
     (find (\<lambda>step. step_id step = ''deposit'') steps = Some depositStep \<and>
      (step_items depositStep = None \<or> step_items depositStep = Some [])))"
  then obtain s ss where "steps = s # ss" by (cases steps) auto
  with b show "executeBridgeTransaction env wlt q (w, t) = (Inl no_deposit_step, (w, t))"
    by (auto simp: executeBridgeTransaction_def prog_eval simp del: find.simps)
qed

theorem executeBridgeTransaction_deposit_witness:
  "wl_provider example_wallet = 8453 \<and>
   executeBridgeTransaction (example_env (Inr 50000000) 10000000000000000 (weth_on_base 0))
     example_wallet example_bridge_quote ((), []) =
     (Inr \<lparr>br_tx = ''0xhash'', br_requestId = Some ''0xrequest''\<rparr>,
      ((), [SendTransaction 42161
              \<lparr>tx_to = ''0xRelayer'', tx_data = Raw ''0xdeposit'', tx_value = 0,
               tx_gasLimit = None, tx_gasPrice = Some 150000000\<rparr>])) \<and>
   executeBridgeTransaction (example_env (Inr 50000000) 10000000000000000 (weth_on_base 0))
     example_wallet example_quote_no_steps ((), []) = (Inl no_steps, ((), [])) \<and>
   executeBridgeTransaction (example_env (Inr 50000000) 10000000000000000 (weth_on_base 0))
     example_wallet example_quote_no_deposit ((), []) = (Inl no_deposit_step, ((), []))"
proof -
  let ?env = "example_env (Inr 50000000) 10000000000000000 (weth_on_base 0)"
  let ?approve = "\<lparr>step_id = ''approve'', step_items = Some [], step_requestId = None\<rparr>"
  let ?payload = "\<lparr>pl_to = ''0xRelayer'', pl_data = ''0xdeposit'', pl_value = Some 0,
                   pl_gasPrice = None, pl_chainId = 42161\<rparr>"
  let ?item = "\<lparr>item_data = Some ?payload\<rparr>"
  let ?deposit = "\<lparr>step_id = ''deposit'', step_items = Some [?item],
                   step_requestId = Some ''0xrequest''\<rparr>"
  have s1: "bq_steps example_bridge_quote = Some [?approve, ?deposit]"
    by (simp add: example_bridge_quote_def)
  have s2: "bq_steps example_quote_no_deposit = Some [?approve]"
    by (simp add: example_quote_no_deposit_def)
  have s3: "bq_steps example_quote_no_steps = None"
    by (simp add: example_quote_no_steps_def)
  from executeBridgeTransaction_deposit[where q = example_bridge_quote
      and steps = "[?approve, ?deposit]" and depositStep = ?deposit and item = ?item
      and items = "[]" and txData = ?payload and env = ?env and wlt = example_wallet
      and w = "()" and t = "[]"] s1
  have a: "executeBridgeTransaction ?env example_wallet example_bridge_quote ((), []) =
     (Inr \<lparr>br_tx = ''0xhash'', br_requestId = Some ''0xrequest''\<rparr>,
      ((), [SendTransaction 42161
              \<lparr>tx_to = ''0xRelayer'', tx_data = Raw ''0xdeposit'', tx_value = 0,
               tx_gasLimit = None, tx_gasPrice = Some 150000000\<rparr>]))"
    by (simp add: example_env_fields example_wallet_def Let_def)
  from executeBridgeTransaction_deposit[where q = example_quote_no_steps
      and env = ?env and wlt = example_wallet and w = "()" and t = "[]"] s3
  have b: "executeBridgeTransaction ?env example_wallet example_quote_no_steps ((), []) =
             (Inl no_steps, ((), []))"
    by simp
  from executeBridgeTransaction_deposit[where q = example_quote_no_deposit
      and steps = "[?approve]" and depositStep = ?deposit
      and env = ?env and wlt = example_wallet and w = "()" and t = "[]"] s2
  have c: "executeBridgeTransaction ?env example_wallet example_quote_no_deposit ((), []) =
             (Inl no_deposit_step, ((), []))"
    by simp
  from a b c show ?thesis by (simp add: example_wallet_def)
qed

section \<open>Zero address in the swap result\<close>

lemma andThen_lift_Inr: "andThen (lift (Inr x)) k = k x"
  by (rule ext) (simp add: andThen_def lift_def)

lemma requestBridgeQuote_emits:
  "triple (\<lambda>t'. t' = t) (requestBridgeQuote env p) (\<lambda>r t'. t' = t @ [BridgeQuoteRequested p])"
  unfolding requestBridgeQuote_def
  by (rule tripleI) (auto elim!: progE split: if_splits)

lemma bridgeSteps_request:
  assumes d: "findDestinationChain (env_random env) (sourceChainId bt) = Inr d"
    and f: "zeroAddressFallback (sourceChainId bt) sts tok = Inr tok'"
    and a: "tokenAddressOf d (case sts of None \<Rightarrow> None | Some s \<Rightarrow> TARGET_TOKENS s) = Inr dc"
  shows "triple (\<lambda>t'. t' = t) (bridgeSteps env wlt sl bt sts amt tok)
           (\<lambda>r. prefix (t @ [BridgeQuoteRequested
                    \<lparr>bp_user = wl_address wlt,
                     bp_recipient = Some (wl_address wlt),
                     bp_originChainId = sourceChainId bt,
                     bp_destinationChainId = d,
                     bp_tokenAddress = ot_address tok',
                     bp_symbol = sts,
                     bp_amount = amt,
                     bp_slippageTolerance = (if sl = [] then ''0.5'' else sl),
                     bp_targetSymbol = (case sts of None \<Rightarrow> None | Some s \<Rightarrow> TARGET_TOKENS s),
                     bp_destinationCurrency = dc\<rparr>]))"
  unfolding bridgeSteps_def Let_def d f a andThen_lift_Inr
  apply (rule R_seq[OF requestBridgeQuote_emits])
   apply simp
  apply (rule R_pre[OF approveRelayerSteps_inv[OF stable_prefix]])
  apply simp
  done

text \<open>
  C8. When the swap result carries the zero address as output token, the bridge quote that
  steps 9 to 11 request next carries the registry address of the swap target on the source
  chain, which is not the zero address, and the swap target symbol.
\<close>

theorem zero_address_replaced_in_bridge_request:
  assumes zero: "ot_address toToken = Some ZERO_ADDRESS"
    and src: "sourceChainId bestToken \<in> {8453, 42161, 10, 59144}"
    and smb: "s \<in> {''WETH'', ''USDC''}"
    and rnd: "0 \<le> env_random env" "env_random env < 1"
    and run: "bridgeSteps env wlt slippage bestToken (Some s) toAmount toToken (w, t) =
                (r, (w', t'))"
  shows "\<exists>p rest a. t' = t @ BridgeQuoteRequested p # rest \<and>
           tokenAddressOf (sourceChainId bestToken) (Some s) = Inr (Some a) \<and>
           a \<noteq> ZERO_ADDRESS \<and> bp_tokenAddress p = Some a \<and> bp_symbol p = Some s"
proof -
  from findDestinationChain_Inr[OF src rnd] obtain d where
    d: "findDestinationChain (env_random env) (sourceChainId bestToken) = Inr d"
    and dsup: "d \<in> {8453, 42161, 10, 59144}" by blast
  from src smb obtain a where
    a: "tokenAddressOf (sourceChainId bestToken) (Some s) = Inr (Some a)" "a \<noteq> ZERO_ADDRESS"
    by (auto simp: tokenAddressOf_def tokenAddresses_def ZERO_ADDRESS_def)
  with zero have f: "zeroAddressFallback (sourceChainId bestToken) (Some s) toToken =
      Inr (toToken\<lparr>ot_address := Some a, ot_symbol := Some s\<rparr>)"
    by (simp add: zeroAddressFallback_def)
  from dsup obtain dc where
    dc: "tokenAddressOf d (case Some s of None \<Rightarrow> None | Some s \<Rightarrow> TARGET_TOKENS s) = Inr dc"
    by (auto simp: tokenAddressOf_def tokenAddresses_def)
  have "prefix (t @ [BridgeQuoteRequested
                    \<lparr>bp_user = wl_address wlt,
                     bp_recipient = Some (wl_address wlt),
                     bp_originChainId = sourceChainId bestToken,
                     bp_destinationChainId = d,
                     bp_tokenAddress = ot_address (toToken\<lparr>ot_address := Some a, ot_symbol := Some s\<rparr>),
                     bp_symbol = Some s,
                     bp_amount = toAmount,
                     bp_slippageTolerance = (if slippage = [] then ''0.5'' else slippage),
                     bp_targetSymbol = (case Some s of None \<Rightarrow> None | Some s \<Rightarrow> TARGET_TOKENS s),
                     bp_destinationCurrency = dc\<rparr>]) (snd (w', t'))"
    by (rule tripleD[OF bridgeSteps_request[OF d f dc, where t = t] _ run]) simp
  then obtain rest where "t' = (t @ [BridgeQuoteRequested
                    \<lparr>bp_user = wl_address wlt,
                     bp_recipient = Some (wl_address wlt),
                     bp_originChainId = sourceChainId bestToken,
                     bp_destinationChainId = d,
                     bp_tokenAddress = ot_address (toToken\<lparr>ot_address := Some a, ot_symbol := Some s\<rparr>),
                     bp_symbol = Some s,
                     bp_amount = toAmount,
                     bp_slippageTolerance = (if slippage = [] then ''0.5'' else slippage),
                     bp_targetSymbol = (case Some s of None \<Rightarrow> None | Some s \<Rightarrow> TARGET_TOKENS s),
                     bp_destinationCurrency = dc\<rparr>]) @ rest"
    by (auto simp: prefix_def)
  with a show ?thesis by simp
qed

theorem zero_address_replaced_in_bridge_request_witness:
  "ot_address example_zero_token = Some ZERO_ADDRESS \<and>
   sourceChainId example_best \<in> {8453, 42161, 10, 59144} \<and>
   ''USDC'' \<in> {''WETH'', ''USDC''} \<and>
   bridgeSteps (example_env (Inr 50000000) 10000000000000000 (weth_on_base 0)) example_wallet
     ''0.5'' example_best (Some ''USDC'') 5000000 example_zero_token ((), []) =
     (Inr CycleDone, ((), drop 6 example_trace)) \<and>
   (\<exists>p rest. drop 6 example_trace = [] @ BridgeQuoteRequested p # rest \<and>
      tokenAddressOf (sourceChainId example_best) (Some ''USDC'') =
        Inr (Some ''0x833589fCD6eDb6E08f4c7C32D4f71b54bdA02913'') \<and>
      bp_tokenAddress p = Some ''0x833589fCD6eDb6E08f4c7C32D4f71b54bdA02913'' \<and>
      bp_symbol p = Some ''USDC'')"
proof -
  let ?env = "example_env (Inr 50000000) 10000000000000000 (weth_on_base 0)"
  have z: "ot_address example_zero_token = Some ZERO_ADDRESS"
    by (simp add: example_zero_token_def)
  have c: "sourceChainId example_best \<in> {8453, 42161, 10, 59144}"
    by (simp add: example_best_def)
  have r: "0 \<le> env_random ?env" "env_random ?env < 1"
    by (simp_all add: example_env_fields)
  have run: "bridgeSteps ?env example_wallet ''0.5'' example_best (Some ''USDC'') 5000000
               example_zero_token ((), []) = (Inr CycleDone, ((), drop 6 example_trace))"
    by (simp add: cycle_defs prog_eval table_defs example_env_fields example_bridge_quote_def
        example_best_def example_zero_token_def example_wallet_def example_trace_def Let_def)
  have reg: "tokenAddressOf (sourceChainId example_best) (Some ''USDC'') =
               Inr (Some ''0x833589fCD6eDb6E08f4c7C32D4f71b54bdA02913'')"
    by (simp add: tokenAddressOf_def tokenAddresses_def example_best_def)
  have m: "''USDC'' \<in> {''WETH'', ''USDC''}" by simp
  from zero_address_replaced_in_bridge_request[OF z c m r run] reg z c run
  show ?thesis by auto
qed

section \<open>Isolation of failed balance reads\<close>

lemma snapshot_value:
  "checkTokenBalancesAcrossChains env wa =
     Inr [(8453, \<lparr>cd_chainName = ''base'', cd_tokens =
             [''USDC'' \<mapsto> readToken env 8453 ''0x833589fCD6eDb6E08f4c7C32D4f71b54bdA02913'' wa,
              ''WETH'' \<mapsto> readToken env 8453 ''0x4200000000000000000000000000000000000006'' wa]\<rparr>),
          (42161, \<lparr>cd_chainName = ''arbitrum'', cd_tokens =
             [''USDC'' \<mapsto> readToken env 42161 ''0xaf88d065e77c8cC2239327C5EDb3A432268e5831'' wa,
              ''WETH'' \<mapsto> readToken env 42161 ''0x82aF49447D8a07e3bd95BD0d56f35241523fBab1'' wa]\<rparr>),
          (10, \<lparr>cd_chainName = ''optimism'', cd_tokens =
             [''USDC'' \<mapsto> readToken env 10 ''0x0b2C639c533813f4Aa9D7837CAf62653d097Ff85'' wa,
              ''WETH'' \<mapsto> readToken env 10 ''0x4200000000000000000000000000000000000006'' wa]\<rparr>),
          (59144, \<lparr>cd_chainName = ''linea'', cd_tokens =
             [''USDC'' \<mapsto> readToken env 59144 ''0x176211869cA2b568f2A7D4EE941E073a821EE1ff'' wa,
              ''WETH'' \<mapsto> readToken env 59144 ''0xe5D7C2a44FfDDf6b295A15c148167daaAf5Cf34f'' wa]\<rparr>)]"
  by (simp add: checkTokenBalancesAcrossChains_def chainIds_def tokenAddresses_def)

text \<open>
  C9. \<open>checkTokenBalancesAcrossChains\<close> never raises on a failed read. The snapshot has the
  four supported chain ids as keys, and for every token of the registry the entry of its
  chain and symbol is the outcome of that token's own two reads: an error entry with the
  message of the read that failed, or a balance entry. No entry depends on the reads of
  another token.
\<close>

theorem checkTokenBalancesAcrossChains_isolated:
  "\<exists>b. checkTokenBalancesAcrossChains env walletAddress = Inr b \<and>
        map fst b = [8453, 42161, 10, 59144] \<and>
        (\<forall>chainId toks smb addr.
           map_of tokenAddresses chainId = Some toks \<and> map_of toks smb = Some addr \<longrightarrow>
           (\<exists>cd. map_of b chainId = Some cd \<and>
                 cd_tokens cd smb =
                   Some (case env_decimals env chainId addr of
                           Inl err \<Rightarrow> TokenError (message err)
                         | Inr dec \<Rightarrow>
                             (case env_balanceOf env chainId addr walletAddress of
                                Inl err \<Rightarrow> TokenError (message err)
                              | Inr bal \<Rightarrow> TokenBalance addr bal dec))))"
  unfolding snapshot_value readToken_def
  by (auto simp: tokenAddresses_def split: if_splits)

theorem checkTokenBalancesAcrossChains_isolated_witness:
  "\<exists>b cd. checkTokenBalancesAcrossChains
       (example_env (Inr 50000000) 10000000000000000 arbitrum_weth_down) ''0xWallet'' = Inr b \<and>
     map fst b = [8453, 42161, 10, 59144] \<and>
     map_of b 42161 = Some cd \<and>
     cd_tokens cd ''WETH'' = Some (TokenError ''missing response'') \<and>
     cd_tokens cd ''USDC'' =
       Some (TokenBalance ''0xaf88d065e77c8cC2239327C5EDb3A432268e5831'' 7 6)"
proof -
  let ?env = "example_env (Inr 50000000) 10000000000000000 arbitrum_weth_down"
  let ?toks = "[(''USDC'', ''0xaf88d065e77c8cC2239327C5EDb3A432268e5831''),
                (''WETH'', ''0x82aF49447D8a07e3bd95BD0d56f35241523fBab1'')]"
  have t: "map_of tokenAddresses 42161 = Some ?toks"
    by (simp add: tokenAddresses_def)
  have w: "map_of ?toks ''WETH'' = Some ''0x82aF49447D8a07e3bd95BD0d56f35241523fBab1''"
    and u: "map_of ?toks ''USDC'' = Some ''0xaf88d065e77c8cC2239327C5EDb3A432268e5831''"
    by simp_all
  have rw: "(case env_decimals ?env 42161 ''0x82aF49447D8a07e3bd95BD0d56f35241523fBab1'' of
               Inl err \<Rightarrow> TokenError (message err)
             | Inr dec \<Rightarrow>
                 (case env_balanceOf ?env 42161 ''0x82aF49447D8a07e3bd95BD0d56f35241523fBab1''
                         ''0xWallet'' of
                    Inl err \<Rightarrow> TokenError (message err)
                  | Inr bal \<Rightarrow> TokenBalance ''0x82aF49447D8a07e3bd95BD0d56f35241523fBab1'' bal dec)) =
              TokenError ''missing response''"
    and ru: "(case env_decimals ?env 42161 ''0xaf88d065e77c8cC2239327C5EDb3A432268e5831'' of
               Inl err \<Rightarrow> TokenError (message err)
             | Inr dec \<Rightarrow>
                 (case env_balanceOf ?env 42161 ''0xaf88d065e77c8cC2239327C5EDb3A432268e5831''
                         ''0xWallet'' of
                    Inl err \<Rightarrow> TokenError (message err)
                  | Inr bal \<Rightarrow> TokenBalance ''0xaf88d065e77c8cC2239327C5EDb3A432268e5831'' bal dec)) =
              TokenBalance ''0xaf88d065e77c8cC2239327C5EDb3A432268e5831'' 7 6"
    by (simp_all add: example_env_fields arbitrum_weth_down_def tokenAddressOf_def
        tokenAddresses_def)
  from checkTokenBalancesAcrossChains_isolated[of ?env "''0xWallet''"] obtain b where
    b1: "checkTokenBalancesAcrossChains ?env ''0xWallet'' = Inr b"
    and b2: "map fst b = [8453, 42161, 10, 59144]"
    and b3: "\<And>chainId toks smb addr.
           map_of tokenAddresses chainId = Some toks \<Longrightarrow> map_of toks smb = Some addr \<Longrightarrow>
           \<exists>cd. map_of b chainId = Some cd \<and>
                 cd_tokens cd smb =
                   Some (case env_decimals ?env chainId addr of
                           Inl err \<Rightarrow> TokenError (message err)
                         | Inr dec \<Rightarrow>
                             (case env_balanceOf ?env chainId addr ''0xWallet'' of
                                Inl err \<Rightarrow> TokenError (message err)
                              | Inr bal \<Rightarrow> TokenBalance addr bal dec))"
    by (elim exE conjE) (rule that, assumption, assumption, simp)
  from b3[OF t w] obtain cd where
    cd: "map_of b 42161 = Some cd" "cd_tokens cd ''WETH'' = Some (TokenError ''missing response'')"
    unfolding rw by (elim exE conjE)
  from b3[OF t u] cd(1)
  have "cd_tokens cd ''USDC'' = Some (TokenBalance ''0xaf88d065e77c8cC2239327C5EDb3A432268e5831'' 7 6)"
    unfolding ru by auto
  with b1 b2 cd show ?thesis by (intro exI conjI)
qed

section \<open>Alternation of the target symbol\<close>





lemma alternates_plain [simp]:
  "alternates bt s' (GasPriceChecked c r)" "alternates bt s' (SendTransaction c tx)"
  by (simp_all add: alternates_def)

















lemma stable_True: "stable (\<lambda>t. True)"
  by (simp add: stable_def)















end
